theory Spec2Isabelle
  imports Complex_Main "HOL-Library.Multiset" "HOL-Library.Product_Lexorder"
begin

section \<open>JavaScript numbers\<close>

text \<open>
  The program computes with JavaScript numbers, which are IEEE 754 doubles. A finite double
  is modelled by the real number it stands for, and \<open>Infinity\<close>, \<open>-Infinity\<close> and
  \<open>NaN\<close> are constructors of their own. Every arithmetic operation computes the exact
  real result and rounds it to the nearest double, ties to even (\<open>rnd\<close>). The sign of a
  zero is not kept: a zero divisor counts as \<open>+0\<close>.
\<close>

datatype jsnum = Num real | PosInf | NegInf | NaN

text \<open>The nearest integer, a tie going to the even neighbour.\<close>

definition round_even :: "real \<Rightarrow> int" where
  "round_even q =
     (let f = \<lfloor>q\<rfloor> in
      if q - of_int f < 1 / 2 then f
      else if 1 / 2 < q - of_int f then f + 1
      else if even f then f else f + 1)"

text \<open>
  The binary exponent of a number other than zero, not below the exponent \<open>-1022\<close> of the
  subnormal doubles, and the distance \<open>ulp\<close> of neighbouring doubles at that exponent
  (53 significant bits).
\<close>

definition expo :: "real \<Rightarrow> int" where
  "expo x = max \<lfloor>log 2 \<bar>x\<bar>\<rfloor> (- 1022)"

definition ulp :: "real \<Rightarrow> real" where
  "ulp x = 2 powi (expo x - 52)"

text \<open>
  Rounding to the nearest double: the nearest multiple of \<open>ulp x\<close>, and an infinity when
  that reaches \<open>2 ^ 1024\<close>.
\<close>

definition rnd :: "real \<Rightarrow> jsnum" where
  "rnd x =
     (if x = 0 then Num 0
      else
        let y = of_int (round_even (x / ulp x)) * ulp x
        in if 2 ^ 1024 \<le> \<bar>y\<bar> then (if 0 < x then PosInf else NegInf) else Num y)"

text \<open>The operators \<open>/\<close>, \<open>*\<close>, \<open>+\<close>, \<open>-\<close> and \<open><=\<close> of the language.\<close>

fun js_div :: "jsnum \<Rightarrow> jsnum \<Rightarrow> jsnum" where
  "js_div NaN _ = NaN"
| "js_div _ NaN = NaN"
| "js_div (Num x) (Num y) =
     (if y = 0 then (if x = 0 then NaN else if 0 < x then PosInf else NegInf)
      else rnd (x / y))"
| "js_div (Num x) PosInf = Num 0"
| "js_div (Num x) NegInf = Num 0"
| "js_div PosInf (Num y) = (if 0 \<le> y then PosInf else NegInf)"
| "js_div NegInf (Num y) = (if 0 \<le> y then NegInf else PosInf)"
| "js_div PosInf PosInf = NaN"
| "js_div PosInf NegInf = NaN"
| "js_div NegInf PosInf = NaN"
| "js_div NegInf NegInf = NaN"

fun js_mul :: "jsnum \<Rightarrow> jsnum \<Rightarrow> jsnum" where
  "js_mul NaN _ = NaN"
| "js_mul _ NaN = NaN"
| "js_mul (Num x) (Num y) = rnd (x * y)"
| "js_mul (Num x) PosInf = (if x = 0 then NaN else if 0 < x then PosInf else NegInf)"
| "js_mul (Num x) NegInf = (if x = 0 then NaN else if 0 < x then NegInf else PosInf)"
| "js_mul PosInf (Num y) = (if y = 0 then NaN else if 0 < y then PosInf else NegInf)"
| "js_mul NegInf (Num y) = (if y = 0 then NaN else if 0 < y then NegInf else PosInf)"
| "js_mul PosInf PosInf = PosInf"
| "js_mul PosInf NegInf = NegInf"
| "js_mul NegInf PosInf = NegInf"
| "js_mul NegInf NegInf = PosInf"

fun js_add :: "jsnum \<Rightarrow> jsnum \<Rightarrow> jsnum" where
  "js_add NaN _ = NaN"
| "js_add _ NaN = NaN"
| "js_add (Num x) (Num y) = rnd (x + y)"
| "js_add (Num x) PosInf = PosInf"
| "js_add (Num x) NegInf = NegInf"
| "js_add PosInf (Num y) = PosInf"
| "js_add NegInf (Num y) = NegInf"
| "js_add PosInf PosInf = PosInf"
| "js_add NegInf NegInf = NegInf"
| "js_add PosInf NegInf = NaN"
| "js_add NegInf PosInf = NaN"

fun js_sub :: "jsnum \<Rightarrow> jsnum \<Rightarrow> jsnum" where
  "js_sub NaN _ = NaN"
| "js_sub _ NaN = NaN"
| "js_sub (Num x) (Num y) = rnd (x - y)"
| "js_sub (Num x) PosInf = NegInf"
| "js_sub (Num x) NegInf = PosInf"
| "js_sub PosInf (Num y) = PosInf"
| "js_sub NegInf (Num y) = NegInf"
| "js_sub PosInf PosInf = NaN"
| "js_sub NegInf NegInf = NaN"
| "js_sub PosInf NegInf = PosInf"
| "js_sub NegInf PosInf = NegInf"

fun js_le :: "jsnum \<Rightarrow> jsnum \<Rightarrow> bool" where
  "js_le NaN _ = False"
| "js_le _ NaN = False"
| "js_le (Num x) (Num y) = (x \<le> y)"
| "js_le (Num x) PosInf = True"
| "js_le (Num x) NegInf = False"
| "js_le PosInf (Num y) = False"
| "js_le NegInf (Num y) = True"
| "js_le PosInf PosInf = True"
| "js_le NegInf NegInf = True"
| "js_le PosInf NegInf = False"
| "js_le NegInf PosInf = True"

text \<open>
  \<open>Math.log\<close>. The language fixes its value at the special arguments: \<open>NaN\<close> below
  zero, \<open>-Infinity\<close> at zero, \<open>+0\<close> at one, \<open>Infinity\<close> at \<open>Infinity\<close>. At
  every other positive number the result is the engine's approximation of the natural
  logarithm, a finite number; the approximation is the parameter \<open>lg\<close>.
\<close>

fun Math_log :: "(real \<Rightarrow> real) \<Rightarrow> jsnum \<Rightarrow> jsnum" where
  "Math_log lg (Num x) =
     (if x < 0 then NaN else if x = 0 then NegInf else if x = 1 then Num 0 else Num (lg x))"
| "Math_log lg PosInf = PosInf"
| "Math_log lg NegInf = NaN"
| "Math_log lg NaN = NaN"

section \<open>The data model\<close>

text \<open>
  The interfaces \<open>Debt\<close>, \<open>Expense\<close>, \<open>Income\<close>, \<open>Payment\<close> and
  \<open>FinancialState\<close> are declared in \<open>types.ts\<close>; their fields are read off the object
  literals of \<open>INITIAL_STATE\<close> and the uses in \<open>App.tsx\<close> and \<open>DebtManager.tsx\<close>.
  An optional field is an \<open>option\<close>. Amounts and rates are finite numbers; a due day is
  an integer. Field names that several interfaces share carry the interface as a prefix.
\<close>

record Debt =
  debt_id :: string
  debt_name :: string
  initialAmount :: real
  currentAmount :: real
  minPayment :: real
  color :: string
  debt_dueDay :: "int option"
  interestRate :: "real option"

section \<open>The payoff summary of DebtManager.tsx\<close>

text \<open>
  The body of the callback of \<open>data.debts.map\<close> in \<open>payoffSummary\<close>, up to the value
  of the local variable \<open>months\<close>. \<open>debt.interestRate || 0\<close> is \<open>0\<close> when the
  rate is absent or zero.
\<close>

definition months :: "(real \<Rightarrow> real) \<Rightarrow> Debt \<Rightarrow> jsnum" where
  "months lg debt =
     (if currentAmount debt \<le> 0 then Num 0
      else if minPayment debt \<le> 0 then PosInf
      else
        let r = js_div (js_div (Num (case interestRate debt of None \<Rightarrow> 0
                                     | Some i \<Rightarrow> if i = 0 then 0 else i)) (Num 100)) (Num 12);
            p = Num (currentAmount debt);
            a = Num (minPayment debt)
        in if r = Num 0 then js_div p a
           else if js_le a (js_mul p r) then PosInf
           else js_div (Math_log lg (js_div a (js_sub a (js_mul p r))))
                       (Math_log lg (js_add (Num 1) r)))"

text \<open>The object \<open>{...debt, payoffMonths: months}\<close> that the callback returns.\<close>

record DebtPayoff = Debt +
  payoffMonths :: jsnum

definition payoffEntry :: "(real \<Rightarrow> real) \<Rightarrow> Debt \<Rightarrow> DebtPayoff" where
  "payoffEntry lg debt = Debt.extend debt (DebtPayoff.fields (months lg debt))"

text \<open>
  \<open>Array.prototype.sort\<close> belongs to the language, not to the repository. ECMAScript
  fixes it as a stable sort driven by the sign of the comparator's result, where a result
  of \<open>NaN\<close> counts as zero, and leaves the order open when the comparator is not
  consistent. It is modelled as the stable insertion sort: an element moves behind its
  neighbour only when the comparator's result is positive. The model is the engine's result
  whenever the comparator is consistent, which here is whenever no key is \<open>NaN\<close>.
\<close>

fun js_positive :: "jsnum \<Rightarrow> bool" where
  "js_positive (Num x) = (0 < x)"
| "js_positive PosInf = True"
| "js_positive NegInf = False"
| "js_positive NaN = False"

fun js_insert :: "('a \<Rightarrow> 'a \<Rightarrow> jsnum) \<Rightarrow> 'a \<Rightarrow> 'a list \<Rightarrow> 'a list" where
  "js_insert cmp x [] = [x]"
| "js_insert cmp x (y # ys) =
     (if js_positive (cmp x y) then y # js_insert cmp x ys else x # y # ys)"

fun js_sort :: "('a \<Rightarrow> 'a \<Rightarrow> jsnum) \<Rightarrow> 'a list \<Rightarrow> 'a list" where
  "js_sort cmp [] = []"
| "js_sort cmp (x # xs) = js_insert cmp x (js_sort cmp xs)"

definition payoffCompare :: "DebtPayoff \<Rightarrow> DebtPayoff \<Rightarrow> jsnum" where
  "payoffCompare a b = js_sub (payoffMonths a) (payoffMonths b)"

definition payoffSummary :: "(real \<Rightarrow> real) \<Rightarrow> Debt list \<Rightarrow> DebtPayoff list" where
  "payoffSummary lg ds = js_sort payoffCompare (map (payoffEntry lg) ds)"

subsection \<open>The payoff horizon of the specification\<close>

datatype horizon = Finite real | Unpayable

text \<open>
  The PayoffCalculator as the specification words it, on the three inputs
  \<open>currentAmount\<close>, \<open>minPayment\<close> and the optional annual rate, in the arithmetic of
  the real numbers.
\<close>

definition PayoffCalculator :: "real \<Rightarrow> real \<Rightarrow> real option \<Rightarrow> horizon" where
  "PayoffCalculator cur pay rate =
     (let r = (case rate of None \<Rightarrow> 0 | Some i \<Rightarrow> i) / 100 / 12
      in if cur \<le> 0 then Finite 0
         else if pay \<le> 0 then Unpayable
         else if r = 0 then Finite (cur / pay)
         else if pay \<le> cur * r then Unpayable
         else Finite (ln (pay / (pay - cur * r)) / ln (1 + r)))"

text \<open>How a value of \<open>payoffMonths\<close> reads as a horizon; \<open>-Infinity\<close> and \<open>NaN\<close> read as none.\<close>

fun horizon_of :: "jsnum \<Rightarrow> horizon option" where
  "horizon_of (Num x) = Some (Finite x)"
| "horizon_of PosInf = Some Unpayable"
| "horizon_of NegInf = None"
| "horizon_of NaN = None"

section \<open>The rest of the snapshot\<close>

datatype Frequency = Monthly | Weekly | Bi_weekly

record Expense =
  exp_id :: string
  exp_name :: string
  exp_amount :: real
  category :: string
  frequency :: "Frequency option"
  exp_dueDay :: "int option"

record Income =
  income_id :: string
  source :: string
  income_amount :: real

record Payment =
  payment_id :: string
  payment_debtId :: string
  payment_amount :: real
  payment_date :: string
  recordedBy :: string

record HistoryEntry =
  hist_date :: string
  totalDebt :: real

text \<open>
  \<open>handleMakePayment\<close> assigns to a field of an object of \<open>history\<close>, so these
  objects live in a store and the array \<open>history\<close> holds references to them. A store
  is the content of every address and the next address that is free. No other object of
  the snapshot is ever assigned to, so the others are plain values.
\<close>

type_synonym ref = nat

record Store =
  cells :: "ref \<Rightarrow> HistoryEntry"
  next_ref :: ref

record FinancialState =
  debts :: "Debt list"
  expenses :: "Expense list"
  incomes :: "Income list"
  payments :: "Payment list"
  history :: "ref list"

text \<open>What a reader of a snapshot sees as its history, in a given store.\<close>

definition history_entries :: "Store \<Rightarrow> FinancialState \<Rightarrow> HistoryEntry list" where
  "history_entries h s = map (cells h) (history s)"

section \<open>Strings of numbers\<close>

text \<open>
  A template literal turns an integer into its decimal digits. Characters are the code
  units of the source's strings; the accented letters of the messages are below 256 and
  written by their code.
\<close>

fun show_nat :: "nat \<Rightarrow> string" where
  "show_nat n =
     (if n < 10 then [''0123456789'' ! n]
      else show_nat (n div 10) @ [''0123456789'' ! (n mod 10)])"

definition show_int :: "int \<Rightarrow> string" where
  "show_int i = (if i < 0 then ''-'' @ show_nat (nat (- i)) else show_nat (nat i))"

section \<open>The reminders of App.tsx\<close>

datatype NotificationType = info | warning

record NotificationItem =
  note_id :: string
  note_type :: NotificationType
  title :: string
  message :: string

text \<open>
  What \<open>calculateNotifications\<close> reads from \<open>new Date()\<close>: the timestamp in
  milliseconds, the day of the month (1 to 31) and the day of the week (0 to 6).
\<close>

record JSDate =
  getTime :: int
  getDate :: int
  getDay :: int

text \<open>The monthly check-in; \<open>notes\<close> is the array that the function fills by \<open>push\<close>.\<close>

definition checkin_step :: "JSDate \<Rightarrow> NotificationItem list \<Rightarrow> NotificationItem list" where
  "checkin_step today notes =
     (if getDate today \<le> 3
      then notes @ [\<lparr>note_id = ''monthly-checkin'', note_type = info,
             title = ''Inicio de Mes'',
             message = ''Es momento de registrar tus ingresos del mes para actualizar el presupuesto.''\<rparr>]
      else notes)"

text \<open>
  The callback of \<open>data.debts.forEach\<close>. The test \<open>debt.dueDay\<close> holds when the
  field is present and not zero.
\<close>

definition debt_step :: "JSDate \<Rightarrow> NotificationItem list \<Rightarrow> Debt \<Rightarrow> NotificationItem list" where
  "debt_step today notes debt =
     (let currentDay = getDate today in
      case debt_dueDay debt of
        None \<Rightarrow> notes
      | Some dueDay \<Rightarrow>
          if 0 < currentAmount debt \<and> dueDay \<noteq> 0 then
            if currentDay = dueDay then
              notes @ [\<lparr>note_id = ''debt-due-'' @ debt_id debt, note_type = warning,
                title = [CHR 0xA1] @ ''Vencimiento Hoy!'',
                message = ''El pago m'' @ [CHR 0xED] @ ''nimo de '' @ debt_name debt
                  @ '' vence hoy. Evita recargos.''\<rparr>]
            else if currentDay < dueDay \<and> dueDay \<le> currentDay + 3 then
              let daysLeft = dueDay - currentDay in
              notes @ [\<lparr>note_id = ''debt-upcoming-'' @ debt_id debt, note_type = info,
                title = ''Pago Pr'' @ [CHR 0xF3] @ ''ximo'',
                message = ''El pago de '' @ debt_name debt @ '' es en '' @ show_int daysLeft
                  @ '' d'' @ [CHR 0xED] @ ''as.''\<rparr>]
            else notes
          else notes)"

text \<open>
  The callback of \<open>data.expenses.forEach\<close>. The pair is the two local variables
  \<open>shouldNotify\<close> and \<open>msg\<close>, which the three tests overwrite in turn. The test
  \<open>exp.dueDay\<close> holds when the field is present and not zero; the weekly test asks
  only that it is present.
\<close>

definition expense_flag :: "JSDate \<Rightarrow> Expense \<Rightarrow> bool \<times> string" where
  "expense_flag today expense =
     (let currentDay = getDate today;
          currentDayOfWeek = getDay today;
          v0 = (False, []);
          v1 = (if frequency expense = None \<or> frequency expense = Some Monthly then
                  (case exp_dueDay expense of
                     Some dueDay \<Rightarrow>
                       if dueDay \<noteq> 0 \<and> currentDay = dueDay
                       then (True, ''Hoy corresponde pagar/apartar: '' @ exp_name expense @ ''.'')
                       else v0
                   | None \<Rightarrow> v0)
                else v0);
          v2 = (if frequency expense = Some Weekly then
                  (case exp_dueDay expense of
                     Some dueDay \<Rightarrow>
                       if currentDayOfWeek = dueDay
                       then (True, ''Semanal: Hoy toca el gasto de '' @ exp_name expense @ ''.'')
                       else v1
                   | None \<Rightarrow> v1)
                else v1);
          v3 = (if frequency expense = Some Bi_weekly then
                  (case exp_dueDay expense of
                     Some dueDay \<Rightarrow>
                       if dueDay \<noteq> 0 \<and> (currentDay = dueDay \<or> currentDay = dueDay + 15)
                       then (True, ''Quincenal: Hoy corresponde el gasto de '' @ exp_name expense @ ''.'')
                       else v2
                   | None \<Rightarrow> v2)
                else v2)
      in v3)"

definition expense_step ::
    "JSDate \<Rightarrow> NotificationItem list \<Rightarrow> Expense \<Rightarrow> NotificationItem list" where
  "expense_step today notes expense =
     (let (shouldNotify, msg) = expense_flag today expense in
      if shouldNotify
      then notes @ [\<lparr>note_id = ''exp-'' @ exp_id expense @ ''-'' @ show_int (getTime today),
             note_type = info, title = ''Gasto Fijo'', message = msg\<rparr>]
      else notes)"

text \<open>
  \<open>calculateNotifications\<close>, with the snapshot \<open>data\<close> of the closure and the date
  that \<open>new Date()\<close> gives as arguments; the result is the array handed to
  \<open>setNotifications\<close>.
\<close>

definition calculateNotifications :: "FinancialState \<Rightarrow> JSDate \<Rightarrow> NotificationItem list" where
  "calculateNotifications data today =
     foldl (expense_step today)
       (foldl (debt_step today) (checkin_step today []) (debts data))
       (expenses data)"

section \<open>The actions of App.tsx\<close>

datatype NotificationPermission = permission_default | granted | denied

datatype VisibilityState = visible | hidden

text \<open>A call \<open>new Notification(title, {body, icon})\<close>.\<close>

record SystemAlert =
  alert_title :: string
  alert_body :: string
  alert_icon :: string

text \<open>
  The state that the actions read and write: the store, the component's state (\<open>data\<close>,
  \<open>pushEnabled\<close>, \<open>currentUser\<close>), what the platform answers
  (\<open>'Notification' in window\<close>, \<open>Notification.permission\<close>,
  \<open>document.visibilityState\<close>), and the system notifications created so far.
\<close>

record World =
  store :: Store
  data :: FinancialState
  pushEnabled :: bool
  currentUser :: string
  notificationInWindow :: bool
  permission :: NotificationPermission
  visibilityState :: VisibilityState
  alerts :: "SystemAlert list"

text \<open>
  The effect that asks for the permission when the component mounts. \<open>answer\<close> is the value
  that the promise of \<open>Notification.requestPermission()\<close> resolves to, which is the
  permission that the platform holds from then on.
\<close>

definition requestPermissions :: "NotificationPermission \<Rightarrow> World \<Rightarrow> World" where
  "requestPermissions answer w =
     (if notificationInWindow w \<and> permission w \<noteq> granted
      then w\<lparr>permission := answer, pushEnabled := (answer = granted)\<rparr>
      else if notificationInWindow w \<and> permission w = granted
      then w\<lparr>pushEnabled := True\<rparr>
      else w)"

definition sendSystemNotification :: "string \<Rightarrow> string \<Rightarrow> World \<Rightarrow> World" where
  "sendSystemNotification t body w =
     (if pushEnabled w \<and> notificationInWindow w \<and> visibilityState w = hidden
      then w\<lparr>alerts := alerts w @ [\<lparr>alert_title = t, alert_body = body,
             alert_icon = ''https://cdn-icons-png.flaticon.com/512/2933/2933116.png''\<rparr>]\<rparr>
      else w)"

text \<open>
  \<open>setData(updater)\<close>: the updater runs on the current snapshot, in the current store.
\<close>

definition setData :: "(Store \<times> FinancialState \<Rightarrow> Store \<times> FinancialState) \<Rightarrow> World \<Rightarrow> World" where
  "setData updater w =
     (let (h, s) = updater (store w, data w) in w\<lparr>store := h, data := s\<rparr>)"

text \<open>
  \<open>handleAddDebt\<close>. \<open>newId\<close> is the string that \<open>generateId()\<close> returns; the
  argument's own id is not used, as its type has none.
\<close>

definition addDebt_updater ::
    "Debt \<Rightarrow> Store \<times> FinancialState \<Rightarrow> Store \<times> FinancialState" where
  "addDebt_updater newDebt hp = (fst hp, (snd hp)\<lparr>debts := debts (snd hp) @ [newDebt]\<rparr>)"

definition handleAddDebt :: "string \<Rightarrow> Debt \<Rightarrow> World \<Rightarrow> World" where
  "handleAddDebt newId debt w =
     (let newDebt = debt\<lparr>debt_id := newId\<rparr>;
          w1 = setData (addDebt_updater newDebt) w
      in sendSystemNotification ''Nueva Deuda''
           (currentUser w @ '' agreg'' @ [CHR 0xF3] @ '' la deuda '' @ [CHR 0x22]
              @ debt_name debt @ [CHR 0x22]) w1)"

definition updateDebt_updater ::
    "Debt \<Rightarrow> Store \<times> FinancialState \<Rightarrow> Store \<times> FinancialState" where
  "updateDebt_updater updatedDebt hp =
     (fst hp, (snd hp)\<lparr>debts :=
        map (\<lambda>d. if debt_id d = debt_id updatedDebt then updatedDebt else d) (debts (snd hp))\<rparr>)"

definition handleUpdateDebt :: "Debt \<Rightarrow> World \<Rightarrow> World" where
  "handleUpdateDebt updatedDebt w = setData (updateDebt_updater updatedDebt) w"

definition deleteDebt_updater ::
    "string \<Rightarrow> Store \<times> FinancialState \<Rightarrow> Store \<times> FinancialState" where
  "deleteDebt_updater i hp =
     (fst hp, (snd hp)\<lparr>debts := filter (\<lambda>d. debt_id d \<noteq> i) (debts (snd hp))\<rparr>)"

definition handleDeleteDebt :: "string \<Rightarrow> World \<Rightarrow> World" where
  "handleDeleteDebt i w = setData (deleteDebt_updater i) w"

text \<open>
  The updater of \<open>handleMakePayment\<close>. \<open>date\<close> is the day
  \<open>new Date().toISOString().split('T')[0]\<close>, and \<open>newId\<close> the result of
  \<open>generateId()\<close>. \<open>[...prev.history]\<close> is a new array of the same references;
  \<open>lastHist.totalDebt = newTotalDebt\<close> writes to the object behind the last one.
\<close>

definition makePayment_updater ::
    "string \<Rightarrow> real \<Rightarrow> string \<Rightarrow> string \<Rightarrow> string
      \<Rightarrow> Store \<times> FinancialState \<Rightarrow> Store \<times> FinancialState" where
  "makePayment_updater debtId amount date newId user hp =
     (let h = fst hp;
          prev = snd hp;
          updatedDebts =
            map (\<lambda>d. if debt_id d = debtId
                      then d\<lparr>currentAmount := max 0 (currentAmount d - amount)\<rparr>
                      else d) (debts prev);
          newTotalDebt = foldl (\<lambda>acc d. acc + currentAmount d) 0 updatedDebts;
          newHistory = history prev;
          lastHist = (if newHistory = [] then None else Some (last newHistory));
          written =
            (case lastHist of
               Some l \<Rightarrow>
                 if hist_date (cells h l) = take 7 date
                 then (h\<lparr>cells := (cells h)(l := (cells h l)\<lparr>totalDebt := newTotalDebt\<rparr>)\<rparr>,
                       newHistory)
                 else (h\<lparr>cells := (cells h)(next_ref h :=
                            \<lparr>hist_date = date, totalDebt = newTotalDebt\<rparr>),
                          next_ref := Suc (next_ref h)\<rparr>,
                       newHistory @ [next_ref h])
             | None \<Rightarrow>
                 (h\<lparr>cells := (cells h)(next_ref h :=
                      \<lparr>hist_date = date, totalDebt = newTotalDebt\<rparr>),
                    next_ref := Suc (next_ref h)\<rparr>,
                  newHistory @ [next_ref h]))
      in (fst written,
          prev\<lparr>debts := updatedDebts,
               payments := payments prev @
                 [\<lparr>payment_id = newId, payment_debtId = debtId, payment_amount = amount,
                   payment_date = date, recordedBy = user\<rparr>],
               history := snd written\<rparr>))"

text \<open>
  \<open>handleMakePayment\<close>. \<open>numStr\<close> is the language's conversion of a number to a
  string, used by the template literal for \<open>amount\<close>.
\<close>

definition handleMakePayment ::
    "(real \<Rightarrow> string) \<Rightarrow> string \<Rightarrow> string \<Rightarrow> string \<Rightarrow> real \<Rightarrow> World \<Rightarrow> World" where
  "handleMakePayment numStr date newId debtId amount w =
     (let debtName =
            (case find (\<lambda>d. debt_id d = debtId) (debts (data w)) of
               None \<Rightarrow> ''Deuda''
             | Some d \<Rightarrow> if debt_name d = [] then ''Deuda'' else debt_name d);
          w1 = setData (makePayment_updater debtId amount date newId (currentUser w)) w
      in sendSystemNotification ''Pago Registrado''
           (currentUser w @ '' pag'' @ [CHR 0xF3] @ '' $'' @ numStr amount @ '' a '' @ debtName) w1)"

section \<open>The initial snapshot\<close>

definition BBVA :: Debt where
  "BBVA = \<lparr>debt_id = ''1'', debt_name = ''BBVA'', initialAmount = 50000,
     currentAmount = 45000, minPayment = 2500, color = ''#1e40af'',
     debt_dueDay = Some 15, interestRate = Some 45\<rparr>"

definition Plata_Card :: Debt where
  "Plata_Card = \<lparr>debt_id = ''2'', debt_name = ''Plata Card'', initialAmount = 15000,
     currentAmount = 12000, minPayment = 1000, color = ''#ec4899'',
     debt_dueDay = Some 5, interestRate = Some 65\<rparr>"

definition Fovissste :: Debt where
  "Fovissste = \<lparr>debt_id = ''3'', debt_name = ''Fovissste'', initialAmount = 800000,
     currentAmount = 750000, minPayment = 5000, color = ''#f59e0b'',
     debt_dueDay = Some 28, interestRate = Some 11\<rparr>"

definition Luz :: Expense where
  "Luz = \<lparr>exp_id = ''1'', exp_name = ''Luz'', exp_amount = 500, category = ''Services'',
     frequency = Some Monthly, exp_dueDay = Some 10\<rparr>"

definition Internet :: Expense where
  "Internet = \<lparr>exp_id = ''2'', exp_name = ''Internet'', exp_amount = 600,
     category = ''Services'', frequency = Some Monthly, exp_dueDay = Some 5\<rparr>"

definition Comida_Semanal :: Expense where
  "Comida_Semanal = \<lparr>exp_id = ''3'', exp_name = ''Comida Semanal'', exp_amount = 1000,
     category = ''Food'', frequency = Some Weekly, exp_dueDay = Some 1\<rparr>"

definition Ninera :: Expense where
  "Ninera = \<lparr>exp_id = ''4'', exp_name = ''Ni'' @ [CHR 0xF1] @ ''era'', exp_amount = 1500,
     category = ''Nanny'', frequency = Some Bi_weekly, exp_dueDay = Some 15\<rparr>"

text \<open>The five objects of \<open>history\<close> sit at the addresses 0 to 4 of the initial store.\<close>

definition INITIAL_STORE :: Store where
  "INITIAL_STORE = \<lparr>cells = (\<lambda>_. \<lparr>hist_date = [], totalDebt = 0\<rparr>)
       (0 := \<lparr>hist_date = ''2023-10'', totalDebt = 865000\<rparr>,
        1 := \<lparr>hist_date = ''2023-11'', totalDebt = 855000\<rparr>,
        2 := \<lparr>hist_date = ''2023-12'', totalDebt = 840000\<rparr>,
        3 := \<lparr>hist_date = ''2024-01'', totalDebt = 825000\<rparr>,
        4 := \<lparr>hist_date = ''2024-02'', totalDebt = 807000\<rparr>),
     next_ref = 5\<rparr>"

definition INITIAL_STATE :: FinancialState where
  "INITIAL_STATE = \<lparr>debts = [BBVA, Plata_Card, Fovissste],
     expenses = [Luz, Internet, Comida_Semanal, Ninera],
     incomes = [\<lparr>income_id = ''1'', source = ''Edna'', income_amount = 18000\<rparr>,
                \<lparr>income_id = ''2'', source = ''Ronaldo'', income_amount = 20000\<rparr>],
     payments = [],
     history = [0, 1, 2, 3, 4]\<rparr>"

section \<open>Debts, expenses, dates and worlds of the examples\<close>

text \<open>The unpayable scenario of the specification: 10000 owed, 50 a month, 60 percent a year.\<close>

definition Scenario_unpayable :: Debt where
  "Scenario_unpayable = \<lparr>debt_id = ''s'', debt_name = ''Scenario'', initialAmount = 10000,
     currentAmount = 10000, minPayment = 50, color = ''#64748b'',
     debt_dueDay = None, interestRate = Some 60\<rparr>"

text \<open>
  A debt whose payment is exactly the interest of a month: 10000 owed at 60 percent a year
  is 500 of interest a month, and the payment is 500.
\<close>

definition Interest_only :: Debt where
  "Interest_only = \<lparr>debt_id = ''i'', debt_name = ''Interest only'', initialAmount = 10000,
     currentAmount = 10000, minPayment = 500, color = ''#64748b'',
     debt_dueDay = None, interestRate = Some 60\<rparr>"

text \<open>A debt without interest: 1200 owed, 100 a month.\<close>

definition Interest_free :: Debt where
  "Interest_free = \<lparr>debt_id = ''f'', debt_name = ''Interest free'', initialAmount = 1200,
     currentAmount = 1200, minPayment = 100, color = ''#64748b'',
     debt_dueDay = None, interestRate = None\<rparr>"

text \<open>A bi-weekly expense whose due day is 0.\<close>

definition Quincena_0 :: Expense where
  "Quincena_0 = \<lparr>exp_id = ''q'', exp_name = ''Quincena'', exp_amount = 100,
     category = ''Other'', frequency = Some Bi_weekly, exp_dueDay = Some 0\<rparr>"

text \<open>
  Sunday 10 March 2024 at noon and one minute later, Monday 12 February 2024 and Thursday
  15 February 2024, as \<open>new Date()\<close> shows them.
\<close>

definition March_10 :: JSDate where
  "March_10 = \<lparr>getTime = 1710072000000, getDate = 10, getDay = 0\<rparr>"

definition March_10_later :: JSDate where
  "March_10_later = \<lparr>getTime = 1710072060000, getDate = 10, getDay = 0\<rparr>"

definition February_12 :: JSDate where
  "February_12 = \<lparr>getTime = 1707739200000, getDate = 12, getDay = 1\<rparr>"

definition February_15 :: JSDate where
  "February_15 = \<lparr>getTime = 1707998400000, getDate = 15, getDay = 4\<rparr>"

text \<open>
  The application before the permission effect has run, for the user Edna, on a platform
  with notifications whose permission has not been asked yet, with the page hidden.
\<close>

definition INITIAL_WORLD :: World where
  "INITIAL_WORLD = \<lparr>store = INITIAL_STORE, data = INITIAL_STATE, pushEnabled = False,
     currentUser = ''Edna'', notificationInWindow = True, permission = permission_default,
     visibilityState = hidden, alerts = []\<rparr>"

text \<open>
  The application after the request for the permission was left unanswered when the
  component mounted, and the user has granted the permission in the browser since.
\<close>

definition LATE_GRANT :: World where
  "LATE_GRANT = (requestPermissions permission_default INITIAL_WORLD)\<lparr>permission := granted\<rparr>"

section \<open>The rules of the specification\<close>

text \<open>
  The order of the specification on horizons: finite ones by their number of months, and
  every finite one before \<open>Unpayable\<close>.
\<close>

fun horizon_less :: "horizon \<Rightarrow> horizon \<Rightarrow> bool" where
  "horizon_less (Finite a) (Finite b) = (a < b)"
| "horizon_less (Finite a) Unpayable = True"
| "horizon_less Unpayable _ = False"

text \<open>
  A sort key for the values of \<open>payoffMonths\<close>, used to compare the sort with the
  library's \<open>sort_key\<close>, and the grid of the doubles: every finite double is a whole
  multiple of the smallest positive one.
\<close>

fun rank :: "jsnum \<Rightarrow> nat \<times> real" where
  "rank NegInf = (0, 0)"
| "rank (Num x) = (1, x)"
| "rank PosInf = (2, 0)"
| "rank NaN = (3, 0)"

definition on_grid :: "real \<Rightarrow> bool" where
  "on_grid x = (\<exists>k::int. x = of_int k * 2 powi (- 1074))"

text \<open>An entry whose key the comparator of the sort handles consistently.\<close>

definition key_ok :: "DebtPayoff \<Rightarrow> bool" where
  "key_ok e = (payoffMonths e \<noteq> NaN \<and> (\<forall>x. payoffMonths e = Num x \<longrightarrow> on_grid x))"

text \<open>The monthly rate as the code computes it.\<close>

definition monthly_rate :: "Debt \<Rightarrow> jsnum" where
  "monthly_rate debt =
     js_div (js_div (Num (case interestRate debt of None \<Rightarrow> 0 | Some i \<Rightarrow> i)) (Num 100)) (Num 12)"

text \<open>
  The debt rules of the reminder table, each on its own: for a debt with a positive balance
  and a due day, the warning on the due day, and the info item when the due day is one to
  three days ahead in the same month.
\<close>

definition due_today_note :: "Debt \<Rightarrow> NotificationItem" where
  "due_today_note debt =
     \<lparr>note_id = ''debt-due-'' @ debt_id debt, note_type = warning,
       title = [CHR 0xA1] @ ''Vencimiento Hoy!'',
       message = ''El pago m'' @ [CHR 0xED] @ ''nimo de '' @ debt_name debt
         @ '' vence hoy. Evita recargos.''\<rparr>"

definition upcoming_note :: "Debt \<Rightarrow> int \<Rightarrow> NotificationItem" where
  "upcoming_note debt n =
     \<lparr>note_id = ''debt-upcoming-'' @ debt_id debt, note_type = info,
       title = ''Pago Pr'' @ [CHR 0xF3] @ ''ximo'',
       message = ''El pago de '' @ debt_name debt @ '' es en '' @ show_int n
         @ '' d'' @ [CHR 0xED] @ ''as.''\<rparr>"

definition debt_reminders :: "JSDate \<Rightarrow> Debt \<Rightarrow> NotificationItem list" where
  "debt_reminders today debt =
     (case debt_dueDay debt of
        None \<Rightarrow> []
      | Some dueDay \<Rightarrow>
          if 0 < currentAmount debt then
            (if getDate today = dueDay then [due_today_note debt] else [])
            @ (if getDate today < dueDay \<and> dueDay \<le> getDate today + 3
               then [upcoming_note debt (dueDay - getDate today)] else [])
          else [])"

text \<open>
  When a fixed-expense reminder is due, as the rule of the specification reads: a monthly
  expense (or one without frequency) on its day of the month, a weekly one on its day of
  the week, a bi-weekly one on its day of the month and fifteen days later.
\<close>

definition expense_due :: "JSDate \<Rightarrow> Expense \<Rightarrow> bool" where
  "expense_due today expense =
     (((frequency expense = None \<or> frequency expense = Some Monthly)
         \<and> exp_dueDay expense = Some (getDate today))
      \<or> (frequency expense = Some Weekly \<and> exp_dueDay expense = Some (getDay today))
      \<or> (frequency expense = Some Bi_weekly
          \<and> (exp_dueDay expense = Some (getDate today)
             \<or> exp_dueDay expense = Some (getDate today - 15))))"

text \<open>The same rule, where a bi-weekly expense moreover has a due day other than 0.\<close>

definition expense_due_nonzero :: "JSDate \<Rightarrow> Expense \<Rightarrow> bool" where
  "expense_due_nonzero today expense =
     (((frequency expense = None \<or> frequency expense = Some Monthly)
         \<and> exp_dueDay expense = Some (getDate today))
      \<or> (frequency expense = Some Weekly \<and> exp_dueDay expense = Some (getDay today))
      \<or> (frequency expense = Some Bi_weekly \<and> exp_dueDay expense \<noteq> Some 0
          \<and> (exp_dueDay expense = Some (getDate today)
             \<or> exp_dueDay expense = Some (getDate today - 15))))"

definition expense_note :: "JSDate \<Rightarrow> Expense \<Rightarrow> NotificationItem" where
  "expense_note today expense =
     \<lparr>note_id = ''exp-'' @ exp_id expense @ ''-'' @ show_int (getTime today),
       note_type = info, title = ''Gasto Fijo'',
       message =
         (case frequency expense of
            Some Weekly \<Rightarrow> ''Semanal: Hoy toca el gasto de '' @ exp_name expense @ ''.''
          | Some Bi_weekly \<Rightarrow>
              ''Quincenal: Hoy corresponde el gasto de '' @ exp_name expense @ ''.''
          | _ \<Rightarrow> ''Hoy corresponde pagar/apartar: '' @ exp_name expense @ ''.'')\<rparr>"

definition expense_reminders :: "JSDate \<Rightarrow> Expense \<Rightarrow> NotificationItem list" where
  "expense_reminders today expense =
     (if expense_due_nonzero today expense then [expense_note today expense] else [])"

section \<open>Rounding\<close>

lemma round_even_eqI:
  assumes "of_int m - 1 / 2 < q" "q < of_int m + 1 / 2"
  shows "round_even q = m"
proof -
  have "\<lfloor>q\<rfloor> = m \<or> \<lfloor>q\<rfloor> = m - 1"
    using assms by linarith
  then show ?thesis
  proof
    assume f: "\<lfloor>q\<rfloor> = m"
    then have "q - of_int m < 1 / 2" using assms by simp
    then show ?thesis by (simp add: round_even_def f)
  next
    assume f: "\<lfloor>q\<rfloor> = m - 1"
    then have "1 / 2 < q - of_int (m - 1)" using assms by simp
    then show ?thesis by (simp add: round_even_def f)
  qed
qed

lemma round_even_int [simp]: "round_even (of_int m) = m"
  by (rule round_even_eqI) simp_all

lemma round_even_ge_floor: "\<lfloor>q\<rfloor> \<le> round_even q"
  by (simp add: round_even_def Let_def)

lemma round_even_le_ceiling: "round_even q \<le> \<lfloor>q\<rfloor> + 1"
  by (simp add: round_even_def Let_def)

lemma round_even_nonneg: "0 \<le> q \<Longrightarrow> 0 \<le> round_even q"
  using round_even_ge_floor [of q] by (simp add: order_trans [of 0 "\<lfloor>q\<rfloor>"])

lemma round_even_nonpos: "q \<le> 0 \<Longrightarrow> round_even q \<le> 0"
proof -
  assume q: "q \<le> 0"
  show ?thesis
  proof (cases "q = of_int \<lfloor>q\<rfloor>")
    case True
    then have "round_even q = \<lfloor>q\<rfloor>" by (metis round_even_int)
    then show ?thesis using q by simp
  next
    case False
    then have "of_int \<lfloor>q\<rfloor> < q" by linarith
    then have "\<lfloor>q\<rfloor> < 0" using q by linarith
    then show ?thesis using round_even_le_ceiling [of q] by linarith
  qed
qed

lemma round_even_pos: "1 \<le> q \<Longrightarrow> 1 \<le> round_even q"
proof -
  assume "1 \<le> q"
  then have "1 \<le> \<lfloor>q\<rfloor>" by linarith
  then show ?thesis using round_even_ge_floor [of q] by linarith
qed

lemma expo_eqI:
  assumes "2 powi e \<le> \<bar>x\<bar>" "\<bar>x\<bar> < 2 powi (e + 1)" "- 1022 \<le> e"
  shows "expo x = e"
proof -
  have pos: "0 < \<bar>x\<bar>" using assms(1) zero_less_power_int [of "2::real" e] by linarith
  have p: "(2::real) powr (of_int n) = 2 powi n" for n
    by (simp add: powr_real_of_int')
  have a: "(2::real) powr (of_int e) \<le> \<bar>x\<bar>"
    using assms(1) by (simp add: p)
  have "\<bar>x\<bar> < (2::real) powr (of_int (e + 1))"
    using assms(2) by (simp only: p)
  then have b: "\<bar>x\<bar> < (2::real) powr (of_int e + 1)" by simp
  from a b have "\<lfloor>log 2 \<bar>x\<bar>\<rfloor> = e"
    using pos by (subst floor_log_eq_powr_iff) simp_all
  then show ?thesis using assms(3) by (simp add: expo_def)
qed

lemma expo_ge: "- 1022 \<le> expo x"
  by (simp add: expo_def)

lemma ulp_pos: "0 < ulp x"
  by (simp add: ulp_def)

lemma rnd_eqI:
  assumes "2 powi e \<le> \<bar>x\<bar>" "\<bar>x\<bar> < 2 powi (e + 1)" "- 1022 \<le> e"
    and "of_int m - 1 / 2 < x / 2 powi (e - 52)" "x / 2 powi (e - 52) < of_int m + 1 / 2"
    and "\<bar>of_int m * 2 powi (e - 52)\<bar> < (2::real) ^ 1024"
  shows "rnd x = Num (of_int m * 2 powi (e - 52))"
proof -
  have e: "expo x = e" using assms(1-3) by (rule expo_eqI)
  have "0 < \<bar>x\<bar>" using assms(1) zero_less_power_int [of "2::real" e] by linarith
  then have x: "x \<noteq> 0" by simp
  have m: "round_even (x / 2 powi (e - 52)) = m" using assms(4,5) by (rule round_even_eqI)
  show ?thesis using x assms(6) by (simp add: rnd_def ulp_def e m Let_def)
qed

lemma on_grid_0 [simp]: "on_grid 0"
  unfolding on_grid_def by (rule exI [of _ 0]) simp

lemma ulp_grid: "\<exists>n::nat. ulp x = 2 ^ n * 2 powi (- 1074)"
proof -
  have "0 \<le> expo x + 1022" using expo_ge [of x] by simp
  then obtain n :: nat where n: "expo x + 1022 = int n"
    using zero_le_imp_eq_int by blast
  from n have "expo x - 52 = int n + (- 1074)" by linarith
  then have "ulp x = (2::real) powi (int n + (- 1074))"
    unfolding ulp_def by (rule arg_cong)
  also have "\<dots> = 2 powi (int n) * 2 powi (- 1074)"
    by (rule power_int_add) simp
  finally show ?thesis by auto
qed

lemma rnd_grid:
  assumes "rnd x = Num y"
  shows "on_grid y"
proof (cases "x = 0")
  case True
  with assms show ?thesis by (simp add: rnd_def)
next
  case False
  obtain n :: nat where n: "ulp x = 2 ^ n * 2 powi (- 1074)"
    using ulp_grid by blast
  from assms False have "y = of_int (round_even (x / ulp x)) * ulp x"
    by (simp add: rnd_def Let_def split: if_splits)
  then have "y = of_int (round_even (x / ulp x) * 2 ^ n) * 2 powi (- 1074)"
    by (simp add: n)
  then show ?thesis unfolding on_grid_def by blast
qed

lemma ulp_le:
  assumes "2 powi (- 1074) \<le> z"
  shows "ulp z \<le> z"
proof (cases "\<lfloor>log 2 \<bar>z\<bar>\<rfloor> \<le> - 1022")
  case True
  then have "expo z = - 1022" by (simp add: expo_def)
  then show ?thesis using assms by (simp add: ulp_def)
next
  case False
  have pos: "0 < z" using assms zero_less_power_int [of "2::real" "- 1074"] by linarith
  from False have e: "expo z = \<lfloor>log 2 z\<rfloor>" using pos by (simp add: expo_def)
  have "(2::real) powr (of_int \<lfloor>log 2 z\<rfloor>) \<le> z"
    using pos floor_log_eq_powr_iff [of z 2 "\<lfloor>log 2 z\<rfloor>"] by simp
  then have "2 powi (expo z) \<le> z" by (simp add: powr_real_of_int' e)
  moreover have "(2::real) powi (expo z - 52) \<le> 2 powi (expo z)"
    by (rule power_int_increasing) simp_all
  ultimately show ?thesis by (simp add: ulp_def)
qed

lemma rnd_positive:
  assumes "2 powi (- 1074) \<le> z"
  shows "js_positive (rnd z)"
proof -
  have pos: "0 < z" using assms zero_less_power_int [of "2::real" "- 1074"] by linarith
  have "1 \<le> z / ulp z" using ulp_le [OF assms] ulp_pos [of z] by simp
  then have "1 \<le> round_even (z / ulp z)" by (rule round_even_pos)
  then have "0 < of_int (round_even (z / ulp z)) * ulp z"
    using ulp_pos [of z] by simp
  then show ?thesis using pos by (simp add: rnd_def Let_def)
qed

lemma rnd_not_positive:
  assumes "z \<le> 0"
  shows "\<not> js_positive (rnd z)"
proof -
  have "z / ulp z \<le> 0" using assms ulp_pos [of z] by (simp add: divide_le_0_iff)
  then have "round_even (z / ulp z) \<le> 0" by (rule round_even_nonpos)
  then have "of_int (round_even (z / ulp z)) * ulp z \<le> 0"
    using ulp_pos [of z] by (simp add: mult_le_0_iff)
  then show ?thesis using assms by (simp add: rnd_def Let_def)
qed

lemma grid_gap:
  assumes "on_grid x" "on_grid y" "y < x"
  shows "2 powi (- 1074) \<le> x - y"
proof -
  from assms obtain k l :: int where
    x: "x = of_int k * 2 powi (- 1074)" and y: "y = of_int l * 2 powi (- 1074)"
    unfolding on_grid_def by blast
  have u: "(0::real) < 2 powi (- 1074)" by simp
  from assms(3) have "l < k" unfolding x y using u by (simp add: mult_less_cancel_right)
  then have "(1::real) \<le> of_int (k - l)" by simp
  then have "1 * 2 powi (- 1074) \<le> (of_int (k - l) :: real) * 2 powi (- 1074)"
    using u by (intro mult_right_mono) simp_all
  then show ?thesis unfolding x y by (simp add: algebra_simps)
qed

lemma rnd_diff_positive:
  assumes "on_grid x" "on_grid y"
  shows "js_positive (rnd (x - y)) \<longleftrightarrow> y < x"
proof (cases "y < x")
  case True
  then show ?thesis using rnd_positive [OF grid_gap [OF assms True]] by simp
next
  case False
  then have "x - y \<le> 0" by simp
  then show ?thesis using rnd_not_positive False by blast
qed

section \<open>The payoff horizon\<close>


lemma js_div_grid:
  assumes "js_div a b = Num x"
  shows "on_grid x"
  using assms by (cases a; cases b) (auto split: if_splits intro: rnd_grid)

lemma payoffMonths_payoffEntry: "payoffMonths (payoffEntry lg d) = months lg d"
  by (simp add: payoffEntry_def Debt.extend_def DebtPayoff.fields_def)

lemma months_unfold:
  "months lg debt =
     (if currentAmount debt \<le> 0 then Num 0
      else if minPayment debt \<le> 0 then PosInf
      else if monthly_rate debt = Num 0
        then js_div (Num (currentAmount debt)) (Num (minPayment debt))
      else if js_le (Num (minPayment debt)) (js_mul (Num (currentAmount debt)) (monthly_rate debt))
        then PosInf
      else js_div
        (Math_log lg (js_div (Num (minPayment debt))
           (js_sub (Num (minPayment debt))
              (js_mul (Num (currentAmount debt)) (monthly_rate debt)))))
        (Math_log lg (js_add (Num 1) (monthly_rate debt))))"
proof -
  have "(case interestRate debt of None \<Rightarrow> 0 | Some i \<Rightarrow> if i = 0 then 0 else i)
      = (case interestRate debt of None \<Rightarrow> 0 | Some i \<Rightarrow> i)"
    by (simp split: option.splits)
  then show ?thesis unfolding months_def monthly_rate_def Let_def by simp
qed

lemma months_grid:
  assumes "months lg debt = Num x"
  shows "on_grid x"
  using assms unfolding months_unfold
  by (auto split: if_splits simp del: js_div.simps intro: js_div_grid)

text \<open>The arithmetic of a balance of 10000 at 60 percent a year, step by step.\<close>

lemma rate_60:
  "js_div (js_div (Num 60) (Num 100)) (Num 12) = Num (7205759403792793 / 144115188075855872)"
proof -
  have a: "js_div (Num 60) (Num 100) = Num (5404319552844595 / 9007199254740992)"
    using rnd_eqI [of "- 1" "60 / 100" 5404319552844595] by (simp add: power_int_minus)
  have b: "js_div (Num (5404319552844595 / 9007199254740992)) (Num 12)
      = Num (7205759403792793 / 144115188075855872)"
    using rnd_eqI [of "- 5" "5404319552844595 / 9007199254740992 / 12" 7205759403792793]
    by (simp add: power_int_minus)
  show ?thesis unfolding a b ..
qed

lemma interest_10000:
  "js_mul (Num 10000) (Num (7205759403792793 / 144115188075855872))
     = Num (8796093022207999 / 17592186044416)"
  using rnd_eqI [of 8 "10000 * (7205759403792793 / 144115188075855872)" 8796093022207999]
  by (simp add: power_int_minus)

lemma payment_minus_interest:
  "js_sub (Num 500) (Num (8796093022207999 / 17592186044416)) = Num (1 / 17592186044416)"
  using rnd_eqI [of "- 44" "500 - 8796093022207999 / 17592186044416" 4503599627370496]
  by (simp add: power_int_minus)

lemma payment_over_rest:
  "js_div (Num 500) (Num (1 / 17592186044416)) = Num 8796093022208000"
  using rnd_eqI [of 52 "500 / (1 / 17592186044416)" 8796093022208000]
  by (simp add: power_int_minus)

lemma one_plus_rate:
  "js_add (Num 1) (Num (7205759403792793 / 144115188075855872))
     = Num (4728779608739021 / 4503599627370496)"
  using rnd_eqI [of 0 "1 + 7205759403792793 / 144115188075855872" 4728779608739021]
  by (simp add: power_int_minus)

lemma rate_absent: "js_div (js_div (Num 0) (Num 100)) (Num 12) = Num 0"
  by (simp add: rnd_def)

lemma twelve_months: "js_div (Num 1200) (Num 100) = Num 12"
  using rnd_eqI [of 3 "1200 / 100" 6755399441055744] by (simp add: power_int_minus)

lemma monthly_rate_60:
  "interestRate debt = Some 60 \<Longrightarrow>
     monthly_rate debt = Num (7205759403792793 / 144115188075855872)"
  by (simp add: monthly_rate_def rate_60 del: js_div.simps)

lemma months_Scenario_unpayable: "months lg Scenario_unpayable = PosInf"
proof -
  have r: "monthly_rate Scenario_unpayable = Num (7205759403792793 / 144115188075855872)"
    by (rule monthly_rate_60) (simp add: Scenario_unpayable_def)
  have c: "currentAmount Scenario_unpayable = 10000" "minPayment Scenario_unpayable = 50"
    by (simp_all add: Scenario_unpayable_def)
  show ?thesis unfolding months_unfold r c interest_10000 by simp
qed

lemma months_Interest_only:
  "months lg Interest_only =
     js_div (Num (lg 8796093022208000)) (Num (lg (4728779608739021 / 4503599627370496)))"
proof -
  have r: "monthly_rate Interest_only = Num (7205759403792793 / 144115188075855872)"
    by (rule monthly_rate_60) (simp add: Interest_only_def)
  have c: "currentAmount Interest_only = 10000" "minPayment Interest_only = 500"
    by (simp_all add: Interest_only_def)
  show ?thesis
    unfolding months_unfold r c interest_10000 payment_minus_interest payment_over_rest
      one_plus_rate
    by simp
qed

lemma months_Interest_free: "months lg Interest_free = Num 12"
proof -
  have r: "monthly_rate Interest_free = Num 0"
    by (simp add: monthly_rate_def Interest_free_def rate_absent del: js_div.simps)
  have c: "currentAmount Interest_free = 1200" "minPayment Interest_free = 100"
    by (simp_all add: Interest_free_def)
  show ?thesis unfolding months_unfold r c twelve_months by simp
qed

lemma expo_upper:
  assumes "x \<noteq> 0"
  shows "\<bar>x\<bar> < 2 powi (expo x + 1)"
proof -
  have pos: "0 < \<bar>x\<bar>" using assms by simp
  have "\<bar>x\<bar> < (2::real) powr (of_int \<lfloor>log 2 \<bar>x\<bar>\<rfloor> + 1)"
    using pos floor_log_eq_powr_iff [of "\<bar>x\<bar>" 2 "\<lfloor>log 2 \<bar>x\<bar>\<rfloor>"] by simp
  then have "\<bar>x\<bar> < (2::real) powr (of_int (\<lfloor>log 2 \<bar>x\<bar>\<rfloor> + 1))" by simp
  then have a: "\<bar>x\<bar> < 2 powi (\<lfloor>log 2 \<bar>x\<bar>\<rfloor> + 1)"
    by (simp only: powr_real_of_int' [of 2, simplified])
  have "(2::real) powi (\<lfloor>log 2 \<bar>x\<bar>\<rfloor> + 1) \<le> 2 powi (expo x + 1)"
    by (rule power_int_increasing) (simp_all add: expo_def)
  with a show ?thesis by linarith
qed

lemma ulp_53: "2 ^ 53 * ulp x = 2 powi (expo x + 1)"
proof -
  have "(2::real) powi 53 * 2 powi (expo x - 52) = 2 powi (53 + (expo x - 52))"
    by (rule power_int_add [symmetric]) simp
  also have "53 + (expo x - 52) = expo x + 1" by simp
  finally show ?thesis by (simp add: ulp_def)
qed

lemma rnd_finite:
  assumes "0 < x" "x < 2 ^ 1023"
  shows "rnd x \<noteq> PosInf"
proof -
  have e: "expo x \<le> 1022"
  proof (rule ccontr)
    assume "\<not> expo x \<le> 1022"
    then have "1023 \<le> expo x" by simp
    then have "1023 \<le> \<lfloor>log 2 \<bar>x\<bar>\<rfloor>" by (simp add: expo_def max_def split: if_splits)
    then have "(2::real) powr (of_int 1023) \<le> \<bar>x\<bar>"
      using assms(1) by (simp add: le_floor_iff le_log_iff)
    then show False using assms by (simp add: powr_real_of_int' [of 2, simplified])
  qed
  have "x / ulp x < 2 ^ 53"
  proof -
    have "x < 2 powi (expo x + 1)" using expo_upper [of x] assms(1) by simp
    also have "\<dots> = 2 ^ 53 * ulp x" by (rule ulp_53 [symmetric])
    finally show ?thesis using ulp_pos [of x] by (simp add: pos_divide_less_eq)
  qed
  then have "\<lfloor>x / ulp x\<rfloor> < 2 ^ 53" by (simp add: floor_less_iff)
  then have "round_even (x / ulp x) \<le> 2 ^ 53"
    using round_even_le_ceiling [of "x / ulp x"] by linarith
  then have "(of_int (round_even (x / ulp x)) :: real) \<le> 2 ^ 53"
    by (metis of_int_le_iff of_int_numeral of_int_power)
  then have "of_int (round_even (x / ulp x)) * ulp x \<le> 2 ^ 53 * ulp x"
    using ulp_pos [of x] by (simp add: mult_right_mono)
  also have "2 ^ 53 * ulp x = 2 powi (expo x + 1)" by (rule ulp_53)
  also have "\<dots> \<le> 2 powi 1023"
    using e by (intro power_int_increasing) simp_all
  finally have le: "of_int (round_even (x / ulp x)) * ulp x \<le> 2 ^ 1023" by simp
  have "0 \<le> of_int (round_even (x / ulp x)) * ulp x"
    using assms(1) ulp_pos [of x] round_even_nonneg [of "x / ulp x"] by simp
  then have "\<bar>of_int (round_even (x / ulp x)) * ulp x\<bar> < 2 ^ 1024"
    using le by simp
  then show ?thesis using assms(1) by (simp add: rnd_def Let_def)
qed

lemma ln_lower: "0 < x \<Longrightarrow> 1 - 1 / x \<le> ln (x::real)"
proof -
  assume x: "0 < x"
  then have "ln (1 / x) \<le> 1 / x - 1" by (intro ln_le_minus_one) simp
  then show ?thesis using x by (simp add: ln_div)
qed

lemma ideal_log_quotient:
  "\<exists>v. 0 < v \<and> js_div (Num (ln 8796093022208000)) (Num (ln (4728779608739021 / 4503599627370496))) = Num v"
proof -
  let ?a = "ln (8796093022208000::real)" and ?b = "ln (4728779608739021 / 4503599627370496 :: real)"
  have b: "1 / 25 \<le> ?b" using ln_lower [of "4728779608739021 / 4503599627370496"] by simp
  have a1: "1 / 2 \<le> ?a" using ln_lower [of 8796093022208000] by simp
  have a2: "?a \<le> 8796093022208000" using ln_le_minus_one [of 8796093022208000] by simp
  have b2: "?b \<le> 1" using ln_le_minus_one [of "4728779608739021 / 4503599627370496"] by simp
  have bpos: "0 < ?b" using b by simp
  have q1: "1 / 2 \<le> ?a / ?b"
  proof -
    have "1 / 2 \<le> ?a / 1" using a1 by simp
    also have "\<dots> \<le> ?a / ?b" using a1 b2 bpos by (intro divide_left_mono) simp_all
    finally show ?thesis .
  qed
  have q2: "?a / ?b \<le> 8796093022208000 * 25"
  proof -
    have "?a / ?b \<le> ?a / (1 / 25)" using a1 b by (intro divide_left_mono) simp_all
    also have "\<dots> \<le> 8796093022208000 * 25" using a2 by simp
    finally show ?thesis .
  qed
  have "2 powi (- 1074) \<le> ?a / ?b"
  proof -
    have "(2::real) powi (- 1074) \<le> 2 powi (- 1)" by (rule power_int_increasing) simp_all
    also have "\<dots> = 1 / 2" by (simp add: power_int_minus)
    finally show ?thesis using q1 by linarith
  qed
  then have p: "js_positive (rnd (?a / ?b))" by (rule rnd_positive)
  have "?a / ?b < 2 ^ 1023"
  proof -
    have "(8796093022208000 * 25 :: real) < 2 ^ 60" by simp
    also have "(2::real) ^ 60 \<le> 2 ^ 1023" by (rule power_increasing) simp_all
    finally show ?thesis using q2 by linarith
  qed
  then have f: "rnd (?a / ?b) \<noteq> PosInf" using q1 by (intro rnd_finite) simp_all
  from p f obtain v where "rnd (?a / ?b) = Num v" "0 < v"
    by (cases "rnd (?a / ?b)") simp_all
  then show ?thesis using bpos by auto
qed

text \<open>
  C1, on the code. The debt of 10000 at 60 percent a year with a payment of 500 pays exactly
  the interest of a month, so the case analysis of the specification makes it unpayable.
  The code rounds the monthly rate below 0.05 and the interest below 500, does not take
  the unpayable branch and returns the quotient of two logarithms of the engine: of
  8796093022208000 and of the double next to 1.05. With the exact logarithm in the place of
  the engine's, that quotient is a finite positive number of months.
\<close>

theorem interest_only_debt_gets_formula:
  "PayoffCalculator (currentAmount Interest_only) (minPayment Interest_only)
       (interestRate Interest_only) = Unpayable
   \<and> payoffMonths (payoffEntry lg Interest_only) =
       js_div (Num (lg 8796093022208000)) (Num (lg (4728779608739021 / 4503599627370496)))
   \<and> (\<exists>v. 0 < v \<and> payoffMonths (payoffEntry ln Interest_only) = Num v)"
proof (intro conjI)
  show "PayoffCalculator (currentAmount Interest_only) (minPayment Interest_only)
       (interestRate Interest_only) = Unpayable"
    by (simp add: PayoffCalculator_def Interest_only_def)
  show "payoffMonths (payoffEntry lg Interest_only) =
       js_div (Num (lg 8796093022208000)) (Num (lg (4728779608739021 / 4503599627370496)))"
    unfolding payoffMonths_payoffEntry by (rule months_Interest_only)
  show "\<exists>v. 0 < v \<and> payoffMonths (payoffEntry ln Interest_only) = Num v"
    unfolding payoffMonths_payoffEntry months_Interest_only by (rule ideal_log_quotient)
qed




section \<open>The ranking of the payoff summary\<close>

lemma rank_inj: "rank a = rank b \<longleftrightarrow> a = b"
  by (cases a; cases b) simp_all

lemma positive_rank:
  assumes "a \<noteq> NaN" "b \<noteq> NaN"
    and "\<And>x. a = Num x \<Longrightarrow> on_grid x" "\<And>y. b = Num y \<Longrightarrow> on_grid y"
  shows "js_positive (js_sub a b) \<longleftrightarrow> \<not> rank a \<le> rank b"
  using assms by (cases a; cases b) (auto simp: rnd_diff_positive)

lemma rank_js_le:
  assumes "a \<noteq> NaN" "b \<noteq> NaN"
  shows "rank a \<le> rank b \<longleftrightarrow> js_le a b"
  using assms by (cases a; cases b) auto

lemma rank_horizon:
  assumes "horizon_of a = Some ha" "horizon_of b = Some hb" "rank a \<le> rank b"
  shows "\<not> horizon_less hb ha"
  using assms by (cases a; cases b) auto

lemma js_insert_insort:
  assumes "key_ok x" and "\<forall>y \<in> set ys. key_ok y"
  shows "js_insert payoffCompare x ys = insort_key (\<lambda>e. rank (payoffMonths e)) x ys"
  using assms
  by (induction ys) (simp_all add: payoffCompare_def positive_rank key_ok_def del: js_sub.simps)

lemma js_sort_sort_key:
  assumes "\<forall>y \<in> set ys. key_ok y"
  shows "js_sort payoffCompare ys = sort_key (\<lambda>e. rank (payoffMonths e)) ys"
  using assms
proof (induction ys)
  case Nil
  show ?case by simp
next
  case (Cons y ys)
  then have "js_sort payoffCompare ys = sort_key (\<lambda>e. rank (payoffMonths e)) ys"
    by simp
  moreover have "js_insert payoffCompare y (sort_key (\<lambda>e. rank (payoffMonths e)) ys)
      = insort_key (\<lambda>e. rank (payoffMonths e)) y (sort_key (\<lambda>e. rank (payoffMonths e)) ys)"
    using Cons.prems by (intro js_insert_insort) simp_all
  ultimately show ?case by (simp add: sort_key_def)
qed

lemma payoffEntry_key_ok:
  assumes "\<forall>d \<in> set ds. months lg d \<noteq> NaN"
  shows "\<forall>y \<in> set (map (payoffEntry lg) ds). key_ok y"
  using assms months_grid by (auto simp: payoffMonths_payoffEntry key_ok_def)

text \<open>
  C2. For every list of debts of which none computes \<open>NaN\<close>, the payoff summary is
  ascending in the numbers \<open>payoffMonths\<close>, so ascending in the order of horizons, every
  entry that is \<open>Infinity\<close> stands behind every entry that is not, the entries of equal
  \<open>payoffMonths\<close> (the unpayable ones among them) keep their relative order, and the
  summary is a rearrangement of the computed entries.
\<close>

theorem ranked_output_sorted_stable:
  assumes "\<forall>d \<in> set ds. months lg d \<noteq> NaN"
  shows "(\<forall>i j. i < j \<and> j < length (payoffSummary lg ds) \<longrightarrow>
            js_le (payoffMonths (payoffSummary lg ds ! i)) (payoffMonths (payoffSummary lg ds ! j)))
       \<and> (\<forall>i j hi hj. i < j \<and> j < length (payoffSummary lg ds)
            \<and> horizon_of (payoffMonths (payoffSummary lg ds ! i)) = Some hi
            \<and> horizon_of (payoffMonths (payoffSummary lg ds ! j)) = Some hj
            \<longrightarrow> \<not> horizon_less hj hi)
       \<and> (\<forall>i j. i < length (payoffSummary lg ds) \<and> j < length (payoffSummary lg ds)
            \<and> payoffMonths (payoffSummary lg ds ! i) = PosInf
            \<and> payoffMonths (payoffSummary lg ds ! j) \<noteq> PosInf
            \<longrightarrow> j < i)
       \<and> (\<forall>m. filter (\<lambda>e. payoffMonths e = m) (payoffSummary lg ds)
              = filter (\<lambda>e. payoffMonths e = m) (map (payoffEntry lg) ds))
       \<and> mset (payoffSummary lg ds) = mset (map (payoffEntry lg) ds)"
proof -
  let ?f = "\<lambda>e. rank (payoffMonths e)"
  let ?out = "payoffSummary lg ds"
  have ok_in: "\<forall>y \<in> set (map (payoffEntry lg) ds). key_ok y"
    using assms by (rule payoffEntry_key_ok)
  have out: "?out = sort_key ?f (map (payoffEntry lg) ds)"
    unfolding payoffSummary_def using ok_in by (rule js_sort_sort_key)
  have ok_out: "\<forall>y \<in> set ?out. key_ok y"
    using ok_in by (simp add: out)
  have nn: "payoffMonths (?out ! i) \<noteq> NaN" if "i < length ?out" for i
    using ok_out that by (simp add: key_ok_def)
  have srt: "sorted (map ?f ?out)"
    by (simp add: out)
  have mono: "?f (?out ! i) \<le> ?f (?out ! j)" if "i \<le> j" "j < length ?out" for i j
    using sorted_nth_mono [OF srt, of i j] that by simp
  have 1: "js_le (payoffMonths (?out ! i)) (payoffMonths (?out ! j))"
    if "i < j" "j < length ?out" for i j
  proof -
    from that have "?f (?out ! i) \<le> ?f (?out ! j)" by (intro mono) simp_all
    moreover from that have "payoffMonths (?out ! i) \<noteq> NaN" "payoffMonths (?out ! j) \<noteq> NaN"
      by (simp_all add: nn)
    ultimately show ?thesis by (simp add: rank_js_le)
  qed
  have 2: "\<not> horizon_less hj hi"
    if "i < j" "j < length ?out"
      "horizon_of (payoffMonths (?out ! i)) = Some hi"
      "horizon_of (payoffMonths (?out ! j)) = Some hj" for i j hi hj
  proof -
    from that(1,2) have "?f (?out ! i) \<le> ?f (?out ! j)" by (intro mono) simp_all
    with that(3,4) show ?thesis by (rule rank_horizon)
  qed
  have 3: "j < i" if "i < length ?out" "j < length ?out"
      "payoffMonths (?out ! i) = PosInf" "payoffMonths (?out ! j) \<noteq> PosInf" for i j
  proof (rule ccontr)
    assume "\<not> j < i"
    then have "i \<le> j" by simp
    then have "?f (?out ! i) \<le> ?f (?out ! j)" using that(2) by (rule mono)
    then have "rank PosInf \<le> rank (payoffMonths (?out ! j))" by (simp add: that(3))
    moreover have "payoffMonths (?out ! j) \<noteq> NaN" using that(2) by (rule nn)
    ultimately show False using that(4) by (cases "payoffMonths (?out ! j)") simp_all
  qed
  have 4: "filter (\<lambda>e. payoffMonths e = m) ?out
         = filter (\<lambda>e. payoffMonths e = m) (map (payoffEntry lg) ds)" for m
    using sort_key_stable [of ?f "rank m" "map (payoffEntry lg) ds"]
    by (simp only: out rank_inj)
  have 5: "mset ?out = mset (map (payoffEntry lg) ds)"
    by (simp only: out mset_sort)
  from 1 2 3 4 5 show ?thesis by blast
qed

theorem ranked_output_sorted_stable_witness:
  "months ln Scenario_unpayable \<noteq> NaN \<and> months ln Interest_free \<noteq> NaN
   \<and> mset (payoffSummary ln [Scenario_unpayable, Interest_free])
       = mset (map (payoffEntry ln) [Scenario_unpayable, Interest_free])
   \<and> payoffSummary ln [Scenario_unpayable, Interest_free]
       = [payoffEntry ln Interest_free, payoffEntry ln Scenario_unpayable]"
proof -
  have h: "\<forall>d \<in> set [Scenario_unpayable, Interest_free]. months ln d \<noteq> NaN"
    by (simp add: months_Scenario_unpayable months_Interest_free)
  have s: "payoffSummary ln [Scenario_unpayable, Interest_free]
      = [payoffEntry ln Interest_free, payoffEntry ln Scenario_unpayable]"
    by (simp add: payoffSummary_def payoffCompare_def payoffMonths_payoffEntry
        months_Scenario_unpayable months_Interest_free)
  show ?thesis
    using ranked_output_sorted_stable [OF h] h s by simp
qed

section \<open>The reminders\<close>

lemma debt_step_append: "debt_step today notes debt = notes @ debt_step today [] debt"
  by (auto simp: debt_step_def Let_def split: option.splits)

lemma expense_step_append:
  "expense_step today notes expense = notes @ expense_step today [] expense"
  by (simp add: expense_step_def Let_def split: prod.splits)

lemma foldl_step_concat:
  assumes "\<And>acc x. step acc x = acc @ step [] x"
  shows "foldl step acc xs = acc @ concat (map (step []) xs)"
proof (induction xs arbitrary: acc)
  case Nil
  show ?case by simp
next
  case (Cons x xs)
  have "foldl step acc (x # xs) = foldl step (step acc x) xs" by simp
  also have "\<dots> = step acc x @ concat (map (step []) xs)" by (rule Cons.IH)
  also have "\<dots> = (acc @ step [] x) @ concat (map (step []) xs)"
    using assms [of acc x] by simp
  finally show ?case by simp
qed

lemma calculateNotifications_concat:
  "calculateNotifications state today =
     checkin_step today [] @ concat (map (debt_step today []) (debts state))
       @ concat (map (expense_step today []) (expenses state))"
  unfolding calculateNotifications_def
  by (simp add: foldl_step_concat [of "expense_step today", OF expense_step_append]
      foldl_step_concat [of "debt_step today", OF debt_step_append])

lemma debt_step_rule:
  assumes "1 \<le> getDate today"
  shows "debt_step today [] debt = debt_reminders today debt"
  using assms
  by (auto simp: debt_step_def debt_reminders_def due_today_note_def upcoming_note_def Let_def
      split: option.splits)

lemma expense_step_rule:
  assumes "1 \<le> getDate today"
  shows "expense_step today [] expense = expense_reminders today expense"
proof (cases "frequency expense")
  case None
  then show ?thesis using assms
    by (auto simp: expense_step_def expense_flag_def expense_reminders_def
        expense_due_nonzero_def expense_note_def Let_def split: option.splits)
next
  case (Some f)
  then show ?thesis using assms
    by (cases f)
      (auto simp: expense_step_def expense_flag_def expense_reminders_def
        expense_due_nonzero_def expense_note_def Let_def split: option.splits)
qed

lemma debt_reminders_ids:
  "n \<in> set (debt_reminders today debt) \<Longrightarrow> take 5 (note_id n) = ''debt-''"
  by (auto simp: debt_reminders_def due_today_note_def upcoming_note_def
      split: option.splits if_splits)

lemma expense_reminders_ids:
  "n \<in> set (expense_reminders today expense) \<Longrightarrow> take 4 (note_id n) = ''exp-''"
  by (auto simp: expense_reminders_def expense_note_def split: if_splits)

lemma checkin_ids:
  "n \<in> set (checkin_step today []) \<Longrightarrow> note_id n = ''monthly-checkin''"
  by (auto simp: checkin_step_def split: if_splits)

lemma expense_reminders_not_debt:
  "n \<in> set (expense_reminders today expense) \<Longrightarrow> take 5 (note_id n) \<noteq> ''debt-''"
  by (auto simp: expense_reminders_def expense_note_def split: if_splits)

lemma debt_reminders_not_expense:
  "n \<in> set (debt_reminders today debt) \<Longrightarrow> take 4 (note_id n) \<noteq> ''exp-''"
  by (auto simp: debt_reminders_def due_today_note_def upcoming_note_def
      split: option.splits if_splits)

lemma filter_concat_all:
  assumes "\<And>x n. n \<in> set (f x) \<Longrightarrow> P n"
  shows "filter P (concat (map f xs)) = concat (map f xs)"
proof (induction xs)
  case Nil
  show ?case by simp
next
  case (Cons x xs)
  have "filter P (f x) = f x" using assms by (simp add: filter_id_conv)
  with Cons show ?case by simp
qed

lemma filter_concat_none:
  assumes "\<And>x n. n \<in> set (f x) \<Longrightarrow> \<not> P n"
  shows "filter P (concat (map f xs)) = []"
proof (induction xs)
  case Nil
  show ?case by simp
next
  case (Cons x xs)
  have "filter P (f x) = []" using assms by (simp add: filter_empty_conv)
  with Cons show ?case by simp
qed

lemma calculateNotifications_rules:
  assumes "1 \<le> getDate today"
  shows "calculateNotifications state today =
     checkin_step today [] @ concat (map (debt_reminders today) (debts state))
       @ concat (map (expense_reminders today) (expenses state))"
proof -
  have d: "debt_step today [] = debt_reminders today"
    by (rule ext) (rule debt_step_rule [OF assms])
  have e: "expense_step today [] = expense_reminders today"
    by (rule ext) (rule expense_step_rule [OF assms])
  show ?thesis unfolding calculateNotifications_concat d e ..
qed

text \<open>
  C4. On every day of the month from 1 on, the reminders of \<open>calculateNotifications\<close>
  whose id begins with \<open>debt-\<close> are, debt by debt and in the order of the debts, the
  ones the rules give: for a debt with a positive balance and a due day, the warning with id
  \<open>debt-due-\<close> and the debt's id exactly when the day is the due day, and the info item
  with id \<open>debt-upcoming-\<close> and the debt's id, naming \<open>dueDay - d\<close> days, exactly when
  \<open>d < dueDay \<le> d + 3\<close>; no other debt reminder is in the output. So such a debt's
  warning and info item are in the output on those days. The window is a plain comparison
  of day numbers, so it does not reach into the next month.
\<close>

theorem debt_reminders_emitted:
  assumes "1 \<le> getDate today"
  shows "filter (\<lambda>n. take 5 (note_id n) = ''debt-'') (calculateNotifications state today)
           = concat (map (debt_reminders today) (debts state))
       \<and> (\<forall>debt \<in> set (debts state). \<forall>dueDay.
            0 < currentAmount debt \<and> debt_dueDay debt = Some dueDay \<longrightarrow>
              (getDate today = dueDay
                 \<longrightarrow> due_today_note debt \<in> set (calculateNotifications state today))
            \<and> (getDate today < dueDay \<and> dueDay \<le> getDate today + 3
                 \<longrightarrow> upcoming_note debt (dueDay - getDate today)
                       \<in> set (calculateNotifications state today)))"
proof
  have c: "filter (\<lambda>n. take 5 (note_id n) = ''debt-'') (checkin_step today []) = []"
    by (auto simp: filter_empty_conv dest: checkin_ids)
  have d: "filter (\<lambda>n. take 5 (note_id n) = ''debt-'')
       (concat (map (debt_reminders today) (debts state)))
      = concat (map (debt_reminders today) (debts state))"
    by (rule filter_concat_all) (rule debt_reminders_ids)
  have e: "filter (\<lambda>n. take 5 (note_id n) = ''debt-'')
       (concat (map (expense_reminders today) (expenses state))) = []"
    by (rule filter_concat_none) (rule expense_reminders_not_debt)
  show "filter (\<lambda>n. take 5 (note_id n) = ''debt-'') (calculateNotifications state today)
           = concat (map (debt_reminders today) (debts state))"
    unfolding calculateNotifications_rules [OF assms] by (simp only: filter_append c d e) simp
next
  show "\<forall>debt \<in> set (debts state). \<forall>dueDay.
            0 < currentAmount debt \<and> debt_dueDay debt = Some dueDay \<longrightarrow>
              (getDate today = dueDay
                 \<longrightarrow> due_today_note debt \<in> set (calculateNotifications state today))
            \<and> (getDate today < dueDay \<and> dueDay \<le> getDate today + 3
                 \<longrightarrow> upcoming_note debt (dueDay - getDate today)
                       \<in> set (calculateNotifications state today))"
  proof (intro ballI allI impI conjI)
    fix debt dueDay
    assume d: "debt \<in> set (debts state)"
      and h: "0 < currentAmount debt \<and> debt_dueDay debt = Some dueDay"
      and t: "getDate today = dueDay"
    then have "due_today_note debt \<in> set (debt_reminders today debt)"
      by (simp add: debt_reminders_def)
    with d show "due_today_note debt \<in> set (calculateNotifications state today)"
      unfolding calculateNotifications_rules [OF assms] by auto
  next
    fix debt dueDay
    assume d: "debt \<in> set (debts state)"
      and h: "0 < currentAmount debt \<and> debt_dueDay debt = Some dueDay"
      and t: "getDate today < dueDay \<and> dueDay \<le> getDate today + 3"
    then have "upcoming_note debt (dueDay - getDate today) \<in> set (debt_reminders today debt)"
      by (simp add: debt_reminders_def)
    with d show "upcoming_note debt (dueDay - getDate today)
        \<in> set (calculateNotifications state today)"
      unfolding calculateNotifications_rules [OF assms] by auto
  qed
qed

theorem debt_reminders_emitted_witness:
  "1 \<le> getDate February_12
   \<and> filter (\<lambda>n. take 5 (note_id n) = ''debt-'') (calculateNotifications INITIAL_STATE February_12)
       = [upcoming_note BBVA 3]
   \<and> upcoming_note BBVA 3 \<in> set (calculateNotifications INITIAL_STATE February_12)
   \<and> upcoming_note BBVA 3 =
       \<lparr>note_id = ''debt-upcoming-1'', note_type = info,
         title = ''Pago Pr'' @ [CHR 0xF3] @ ''ximo'',
         message = ''El pago de BBVA es en 3 d'' @ [CHR 0xED] @ ''as.''\<rparr>
   \<and> filter (\<lambda>n. take 5 (note_id n) = ''debt-'')
        (calculateNotifications (INITIAL_STATE\<lparr>debts := [BBVA\<lparr>debt_dueDay := Some 2\<rparr>]\<rparr>)
           (February_12\<lparr>getDate := 30\<rparr>)) = []"
proof -
  have d: "1 \<le> getDate February_12" by (simp add: February_12_def)
  have d30: "1 \<le> getDate (February_12\<lparr>getDate := 30\<rparr>)" by simp
  have r: "concat (map (debt_reminders February_12) (debts INITIAL_STATE)) = [upcoming_note BBVA 3]"
    by (simp add: debt_reminders_def INITIAL_STATE_def February_12_def BBVA_def Plata_Card_def
        Fovissste_def)
  have b: "BBVA \<in> set (debts INITIAL_STATE)" by (simp add: INITIAL_STATE_def)
  have c: "0 < currentAmount BBVA \<and> debt_dueDay BBVA = Some 15" by (simp add: BBVA_def)
  have w: "getDate February_12 < 15 \<and> 15 \<le> getDate February_12 + 3 \<and> 15 - getDate February_12 = 3"
    by (simp add: February_12_def)
  have m: "upcoming_note BBVA 3 \<in> set (calculateNotifications INITIAL_STATE February_12)"
    using debt_reminders_emitted [OF d, of INITIAL_STATE] b c w by fastforce
  have n: "upcoming_note BBVA 3 =
       \<lparr>note_id = ''debt-upcoming-1'', note_type = info,
         title = ''Pago Pr'' @ [CHR 0xF3] @ ''ximo'',
         message = ''El pago de BBVA es en 3 d'' @ [CHR 0xED] @ ''as.''\<rparr>"
    by (simp add: upcoming_note_def BBVA_def show_int_def)
  have e: "concat (map (debt_reminders (February_12\<lparr>getDate := 30\<rparr>))
       (debts (INITIAL_STATE\<lparr>debts := [BBVA\<lparr>debt_dueDay := Some 2\<rparr>]\<rparr>))) = []"
    by (simp add: debt_reminders_def BBVA_def)
  show ?thesis
    using debt_reminders_emitted [OF d, of INITIAL_STATE]
      debt_reminders_emitted [OF d30, of "INITIAL_STATE\<lparr>debts := [BBVA\<lparr>debt_dueDay := Some 2\<rparr>]\<rparr>"]
      d m n
    by (simp only: r e)
qed

text \<open>
  C10. For every debt, date and array of notes so far, the debt adds nothing or exactly one
  item: the due-today and the due-soon branches exclude each other.
\<close>

theorem one_reminder_per_debt:
  "debt_step today notes debt = notes \<or> (\<exists>n. debt_step today notes debt = notes @ [n])"
  by (simp add: debt_step_def Let_def split: option.splits)

text \<open>
  C5, as stated. A bi-weekly expense with due day 0 is due on the 15th by the rule
  (\<open>0 = 15 - 15\<close>), and the reminder computation emits nothing for it.
\<close>

theorem biweekly_due_day_zero_is_skipped:
  "expense_due February_15 Quincena_0
   \<and> calculateNotifications
        \<lparr>debts = [], expenses = [Quincena_0], incomes = [], payments = [], history = []\<rparr>
        February_15 = []"
  by (simp add: expense_due_def calculateNotifications_def checkin_step_def expense_step_def
      expense_flag_def February_15_def Quincena_0_def)

text \<open>
  C5, amended. On every day of the month from 1 on, the reminders of
  \<open>calculateNotifications\<close> whose id begins with \<open>exp-\<close> are, expense by expense and in
  the order of the expenses, one info item titled \<open>Gasto Fijo\<close> for each expense that is
  due and none for the others, where an expense is due when: its frequency is absent or
  monthly and its due day is the day of the month; or it is weekly and its due day is the
  day of the week; or it is bi-weekly, its due day is not 0, and its due day is the day of
  the month or fifteen days before it.
\<close>

theorem expense_reminders_emitted:
  assumes "1 \<le> getDate today"
  shows "filter (\<lambda>n. take 4 (note_id n) = ''exp-'') (calculateNotifications state today)
           = concat (map (expense_reminders today) (expenses state))
       \<and> (\<forall>expense \<in> set (expenses state).
            (expense_due_nonzero today expense
               \<longrightarrow> expense_note today expense \<in> set (calculateNotifications state today))
            \<and> (\<not> expense_due_nonzero today expense \<longrightarrow> expense_reminders today expense = []))"
proof
  have c: "filter (\<lambda>n. take 4 (note_id n) = ''exp-'') (checkin_step today []) = []"
    by (auto simp: filter_empty_conv dest: checkin_ids)
  have d: "filter (\<lambda>n. take 4 (note_id n) = ''exp-'')
       (concat (map (debt_reminders today) (debts state))) = []"
    by (rule filter_concat_none) (rule debt_reminders_not_expense)
  have e: "filter (\<lambda>n. take 4 (note_id n) = ''exp-'')
       (concat (map (expense_reminders today) (expenses state)))
      = concat (map (expense_reminders today) (expenses state))"
    by (rule filter_concat_all) (rule expense_reminders_ids)
  show "filter (\<lambda>n. take 4 (note_id n) = ''exp-'') (calculateNotifications state today)
           = concat (map (expense_reminders today) (expenses state))"
    unfolding calculateNotifications_rules [OF assms] by (simp only: filter_append c d e) simp
next
  show "\<forall>expense \<in> set (expenses state).
            (expense_due_nonzero today expense
               \<longrightarrow> expense_note today expense \<in> set (calculateNotifications state today))
            \<and> (\<not> expense_due_nonzero today expense \<longrightarrow> expense_reminders today expense = [])"
  proof (intro ballI impI conjI)
    fix expense
    assume x: "expense \<in> set (expenses state)" and "expense_due_nonzero today expense"
    then have "expense_note today expense \<in> set (expense_reminders today expense)"
      by (simp add: expense_reminders_def)
    with x show "expense_note today expense \<in> set (calculateNotifications state today)"
      unfolding calculateNotifications_rules [OF assms] by auto
  next
    fix expense
    assume "\<not> expense_due_nonzero today expense"
    then show "expense_reminders today expense = []" by (simp add: expense_reminders_def)
  qed
qed

theorem expense_reminders_emitted_witness:
  "1 \<le> getDate March_10
   \<and> filter (\<lambda>n. take 4 (note_id n) = ''exp-'') (calculateNotifications INITIAL_STATE March_10)
       = [expense_note March_10 Luz]
   \<and> expense_note March_10 Luz \<in> set (calculateNotifications INITIAL_STATE March_10)
   \<and> expense_note March_10 Luz =
       \<lparr>note_id = ''exp-1-1710072000000'', note_type = info, title = ''Gasto Fijo'',
         message = ''Hoy corresponde pagar/apartar: Luz.''\<rparr>"
proof -
  have d: "1 \<le> getDate March_10" by (simp add: March_10_def)
  have r: "concat (map (expense_reminders March_10) (expenses INITIAL_STATE))
      = [expense_note March_10 Luz]"
    by (simp add: expense_reminders_def expense_due_nonzero_def INITIAL_STATE_def March_10_def
        Luz_def Internet_def Comida_Semanal_def Ninera_def)
  have l: "Luz \<in> set (expenses INITIAL_STATE)" by (simp add: INITIAL_STATE_def)
  have u: "expense_due_nonzero March_10 Luz"
    by (simp add: expense_due_nonzero_def March_10_def Luz_def)
  have m: "expense_note March_10 Luz \<in> set (calculateNotifications INITIAL_STATE March_10)"
    using expense_reminders_emitted [OF d, of INITIAL_STATE] l u by fastforce
  have n: "expense_note March_10 Luz =
       \<lparr>note_id = ''exp-1-1710072000000'', note_type = info, title = ''Gasto Fijo'',
         message = ''Hoy corresponde pagar/apartar: Luz.''\<rparr>"
    by (simp add: expense_note_def March_10_def Luz_def show_int_def)
  show ?thesis
    using expense_reminders_emitted [OF d, of INITIAL_STATE] d m n
    by (simp only: r)
qed

text \<open>
  C3, on the code. Two evaluations of the initial snapshot one minute apart on the same
  Sunday 10 March give the reminder for \<open>Luz\<close> two different ids, each ending in the
  timestamp of its evaluation, so the two results differ.
\<close>

theorem expense_reminder_id_embeds_timestamp:
  "getDate March_10 = getDate March_10_later \<and> getDay March_10 = getDay March_10_later
   \<and> map note_id (calculateNotifications INITIAL_STATE March_10) = [''exp-1-1710072000000'']
   \<and> map note_id (calculateNotifications INITIAL_STATE March_10_later) = [''exp-1-1710072060000'']
   \<and> calculateNotifications INITIAL_STATE March_10
       \<noteq> calculateNotifications INITIAL_STATE March_10_later"
proof -
  have 1: "map note_id (calculateNotifications INITIAL_STATE March_10) = [''exp-1-1710072000000'']"
    by (simp add: calculateNotifications_def INITIAL_STATE_def March_10_def checkin_step_def
        debt_step_def expense_step_def expense_flag_def show_int_def
        BBVA_def Plata_Card_def Fovissste_def Luz_def Internet_def Comida_Semanal_def Ninera_def)
  have 2: "map note_id (calculateNotifications INITIAL_STATE March_10_later) = [''exp-1-1710072060000'']"
    by (simp add: calculateNotifications_def INITIAL_STATE_def March_10_later_def checkin_step_def
        debt_step_def expense_step_def expense_flag_def show_int_def
        BBVA_def Plata_Card_def Fovissste_def Luz_def Internet_def Comida_Semanal_def Ninera_def)
  have 3: "calculateNotifications INITIAL_STATE March_10
       \<noteq> calculateNotifications INITIAL_STATE March_10_later"
  proof
    assume "calculateNotifications INITIAL_STATE March_10
       = calculateNotifications INITIAL_STATE March_10_later"
    then have "map note_id (calculateNotifications INITIAL_STATE March_10)
       = map note_id (calculateNotifications INITIAL_STATE March_10_later)" by simp
    then show False unfolding 1 2 by simp
  qed
  show ?thesis using 1 2 3 by (simp add: March_10_def March_10_later_def)
qed

section \<open>The actions\<close>

lemma sendSystemNotification_frame:
  "store (sendSystemNotification t b w) = store w"
  "data (sendSystemNotification t b w) = data w"
  "pushEnabled (sendSystemNotification t b w) = pushEnabled w"
  "notificationInWindow (sendSystemNotification t b w) = notificationInWindow w"
  "permission (sendSystemNotification t b w) = permission w"
  "visibilityState (sendSystemNotification t b w) = visibilityState w"
  by (simp_all add: sendSystemNotification_def)

lemma setData_frame:
  "alerts (setData u w) = alerts w"
  "pushEnabled (setData u w) = pushEnabled w"
  "notificationInWindow (setData u w) = notificationInWindow w"
  "permission (setData u w) = permission w"
  "visibilityState (setData u w) = visibilityState w"
  "currentUser (setData u w) = currentUser w"
  by (simp_all add: setData_def split: prod.splits)

lemma setData_result: "(store (setData u w), data (setData u w)) = u (store w, data w)"
  by (simp add: setData_def split: prod.splits)

lemma sendSystemNotification_alerts:
  "alerts (sendSystemNotification t b w) =
     (if pushEnabled w \<and> notificationInWindow w \<and> visibilityState w = hidden
      then alerts w @ [\<lparr>alert_title = t, alert_body = b,
             alert_icon = ''https://cdn-icons-png.flaticon.com/512/2933/2933116.png''\<rparr>]
      else alerts w)"
  by (simp add: sendSystemNotification_def)

text \<open>
  C7, as stated. The platform permission is granted, notifications exist and the page is
  hidden, yet adding a debt creates no system notification: the component asked for the
  permission when it mounted, got no grant then, and tests only the flag it set at that
  moment.
\<close>

theorem late_grant_sends_nothing:
  "permission LATE_GRANT = granted \<and> notificationInWindow LATE_GRANT
   \<and> visibilityState LATE_GRANT = hidden
   \<and> alerts (handleAddDebt ''n1'' Scenario_unpayable LATE_GRANT) = alerts LATE_GRANT
   \<and> alerts (handleMakePayment (\<lambda>_. ''1000'') ''2024-02-10'' ''p1'' ''1'' 1000 LATE_GRANT)
       = alerts LATE_GRANT"
  by (simp add: LATE_GRANT_def INITIAL_WORLD_def requestPermissions_def handleAddDebt_def
      handleMakePayment_def Let_def sendSystemNotification_alerts setData_frame)

text \<open>
  C7, amended. Adding a debt and recording a payment each create exactly one system
  notification, with the title of the action, a body and the icon, when the flag
  \<open>pushEnabled\<close> that the component set from the permission when it mounted holds,
  notifications exist and the page is hidden, and none otherwise. In both cases the action
  completes: the new debt, with its fresh id, is the last debt of the new snapshot; the
  payment is the last payment of the new snapshot and the balance of the paid debt is
  reduced.
\<close>

theorem dispatch_contract:
  "alerts (handleAddDebt newId debt w) =
     (if pushEnabled w \<and> notificationInWindow w \<and> visibilityState w = hidden
      then alerts w @ [\<lparr>alert_title = ''Nueva Deuda'',
             alert_body = currentUser w @ '' agreg'' @ [CHR 0xF3] @ '' la deuda '' @ [CHR 0x22]
               @ debt_name debt @ [CHR 0x22],
             alert_icon = ''https://cdn-icons-png.flaticon.com/512/2933/2933116.png''\<rparr>]
      else alerts w)
   \<and> alerts (handleMakePayment numStr date newId debtId amount w) =
     (if pushEnabled w \<and> notificationInWindow w \<and> visibilityState w = hidden
      then alerts w @ [\<lparr>alert_title = ''Pago Registrado'',
             alert_body = currentUser w @ '' pag'' @ [CHR 0xF3] @ '' $'' @ numStr amount
               @ '' a ''
               @ (case find (\<lambda>d. debt_id d = debtId) (debts (data w)) of
                    None \<Rightarrow> ''Deuda''
                  | Some d \<Rightarrow> if debt_name d = [] then ''Deuda'' else debt_name d),
             alert_icon = ''https://cdn-icons-png.flaticon.com/512/2933/2933116.png''\<rparr>]
      else alerts w)
   \<and> debts (data (handleAddDebt newId debt w)) = debts (data w) @ [debt\<lparr>debt_id := newId\<rparr>]
   \<and> debts (data (handleMakePayment numStr date newId debtId amount w)) =
       map (\<lambda>d. if debt_id d = debtId
                 then d\<lparr>currentAmount := max 0 (currentAmount d - amount)\<rparr> else d)
         (debts (data w))
   \<and> payments (data (handleMakePayment numStr date newId debtId amount w)) =
       payments (data w) @
         [\<lparr>payment_id = newId, payment_debtId = debtId, payment_amount = amount,
           payment_date = date, recordedBy = currentUser w\<rparr>]"
proof -
  have 1: "alerts (handleAddDebt newId debt w) =
     (if pushEnabled w \<and> notificationInWindow w \<and> visibilityState w = hidden
      then alerts w @ [\<lparr>alert_title = ''Nueva Deuda'',
             alert_body = currentUser w @ '' agreg'' @ [CHR 0xF3] @ '' la deuda '' @ [CHR 0x22]
               @ debt_name debt @ [CHR 0x22],
             alert_icon = ''https://cdn-icons-png.flaticon.com/512/2933/2933116.png''\<rparr>]
      else alerts w)"
    by (simp add: handleAddDebt_def Let_def sendSystemNotification_alerts setData_frame)
  have 2: "alerts (handleMakePayment numStr date newId debtId amount w) =
     (if pushEnabled w \<and> notificationInWindow w \<and> visibilityState w = hidden
      then alerts w @ [\<lparr>alert_title = ''Pago Registrado'',
             alert_body = currentUser w @ '' pag'' @ [CHR 0xF3] @ '' $'' @ numStr amount
               @ '' a ''
               @ (case find (\<lambda>d. debt_id d = debtId) (debts (data w)) of
                    None \<Rightarrow> ''Deuda''
                  | Some d \<Rightarrow> if debt_name d = [] then ''Deuda'' else debt_name d),
             alert_icon = ''https://cdn-icons-png.flaticon.com/512/2933/2933116.png''\<rparr>]
      else alerts w)"
    by (simp add: handleMakePayment_def Let_def sendSystemNotification_alerts setData_frame)
  have 3: "debts (data (handleAddDebt newId debt w)) = debts (data w) @ [debt\<lparr>debt_id := newId\<rparr>]"
    by (simp add: handleAddDebt_def Let_def sendSystemNotification_frame setData_def
        addDebt_updater_def split: prod.splits)
  have 4: "debts (data (handleMakePayment numStr date newId debtId amount w)) =
       map (\<lambda>d. if debt_id d = debtId
                 then d\<lparr>currentAmount := max 0 (currentAmount d - amount)\<rparr> else d)
         (debts (data w))"
    by (simp add: handleMakePayment_def Let_def sendSystemNotification_frame setData_def
        makePayment_updater_def split: prod.splits)
  have 5: "payments (data (handleMakePayment numStr date newId debtId amount w)) =
       payments (data w) @
         [\<lparr>payment_id = newId, payment_debtId = debtId, payment_amount = amount,
           payment_date = date, recordedBy = currentUser w\<rparr>]"
    by (simp add: handleMakePayment_def Let_def sendSystemNotification_frame setData_def
        makePayment_updater_def split: prod.splits)
  from 1 2 3 4 5 show ?thesis by (intro conjI)
qed

theorem dispatch_contract_witness:
  "alerts (handleMakePayment (\<lambda>_. ''1000'') ''2024-02-10'' ''p1'' ''1'' 1000
            (requestPermissions granted INITIAL_WORLD))
     = [\<lparr>alert_title = ''Pago Registrado'',
         alert_body = ''Edna pag'' @ [CHR 0xF3] @ '' $1000 a BBVA'',
         alert_icon = ''https://cdn-icons-png.flaticon.com/512/2933/2933116.png''\<rparr>]
   \<and> alerts (handleMakePayment (\<lambda>_. ''1000'') ''2024-02-10'' ''p1'' ''1'' 1000
              (requestPermissions denied INITIAL_WORLD)) = []
   \<and> payments (data (handleMakePayment (\<lambda>_. ''1000'') ''2024-02-10'' ''p1'' ''1'' 1000
              (requestPermissions denied INITIAL_WORLD)))
       = [\<lparr>payment_id = ''p1'', payment_debtId = ''1'', payment_amount = 1000,
           payment_date = ''2024-02-10'', recordedBy = ''Edna''\<rparr>]
   \<and> map currentAmount (debts (data (handleMakePayment (\<lambda>_. ''1000'') ''2024-02-10'' ''p1'' ''1''
              1000 (requestPermissions denied INITIAL_WORLD))))
       = [44000, 12000, 750000]
   \<and> alerts (handleAddDebt ''n1'' Scenario_unpayable (requestPermissions denied INITIAL_WORLD)) = []
   \<and> debts (data (handleAddDebt ''n1'' Scenario_unpayable
              (requestPermissions denied INITIAL_WORLD)))
       = [BBVA, Plata_Card, Fovissste, Scenario_unpayable\<lparr>debt_id := ''n1''\<rparr>]"
  using dispatch_contract [where w = "requestPermissions denied INITIAL_WORLD"
        and newId = "''n1''" and debt = Scenario_unpayable and numStr = "\<lambda>_. ''1000''"
        and date = "''2024-02-10''" and debtId = "''1''" and amount = 1000]
    dispatch_contract [where w = "requestPermissions granted INITIAL_WORLD"
        and newId = "''p1''" and debt = Scenario_unpayable and numStr = "\<lambda>_. ''1000''"
        and date = "''2024-02-10''" and debtId = "''1''" and amount = 1000]
    dispatch_contract [where w = "requestPermissions denied INITIAL_WORLD"
        and newId = "''p1''" and debt = Scenario_unpayable and numStr = "\<lambda>_. ''1000''"
        and date = "''2024-02-10''" and debtId = "''1''" and amount = 1000]
  by (simp add: requestPermissions_def INITIAL_WORLD_def INITIAL_STATE_def BBVA_def
      Plata_Card_def Fovissste_def)

text \<open>
  C9. Recording a payment of \<open>amount\<close> to \<open>debtId\<close> leaves every debt in place, sets
  the balance of the debts with that id to \<open>max 0 (currentAmount - amount)\<close> and keeps the
  other balances; so when no balance was negative before, none is afterwards.
\<close>

theorem payment_clamps_balance:
  "map currentAmount (debts (data (handleMakePayment numStr date newId debtId amount w))) =
     map (\<lambda>d. if debt_id d = debtId then max 0 (currentAmount d - amount) else currentAmount d)
       (debts (data w))
   \<and> ((\<forall>d \<in> set (debts (data w)). 0 \<le> currentAmount d) \<longrightarrow>
      (\<forall>d \<in> set (debts (data (handleMakePayment numStr date newId debtId amount w))).
         0 \<le> currentAmount d))"
proof -
  have d: "debts (data (handleMakePayment numStr date newId debtId amount w)) =
      map (\<lambda>d. if debt_id d = debtId
                then d\<lparr>currentAmount := max 0 (currentAmount d - amount)\<rparr> else d) (debts (data w))"
    by (simp add: handleMakePayment_def Let_def sendSystemNotification_frame setData_def
        makePayment_updater_def split: prod.splits)
  show ?thesis unfolding d by (auto simp: comp_def)
qed

theorem payment_clamps_balance_witness:
  "map currentAmount (debts (data INITIAL_WORLD)) = [45000, 12000, 750000]
   \<and> map currentAmount (debts (data
        (handleMakePayment (\<lambda>_. ''50000'') ''2024-02-10'' ''p1'' ''1'' 50000 INITIAL_WORLD)))
       = [0, 12000, 750000]"
  using payment_clamps_balance [of "\<lambda>_. ''50000''" "''2024-02-10''" "''p1''" "''1''" 50000 INITIAL_WORLD]
  by (simp add: INITIAL_WORLD_def INITIAL_STATE_def BBVA_def Plata_Card_def Fovissste_def)

text \<open>
  C8, on the code. A payment of 1000 to debt 1 on 2024-02-10, recorded on the initial
  snapshot: the last history entry of the previous snapshot read 807000 before the
  updater ran and reads 806000 after it, since the updater writes to the object that the
  old and the new array share.
\<close>

theorem payment_overwrites_previous_history:
  "history_entries INITIAL_STORE INITIAL_STATE ! 4 = \<lparr>hist_date = ''2024-02'', totalDebt = 807000\<rparr>
   \<and> history_entries
        (fst (makePayment_updater ''1'' 1000 ''2024-02-10'' ''p1'' ''Edna''
               (INITIAL_STORE, INITIAL_STATE))) INITIAL_STATE ! 4
       = \<lparr>hist_date = ''2024-02'', totalDebt = 806000\<rparr>"
  by (simp add: history_entries_def makePayment_updater_def INITIAL_STORE_def INITIAL_STATE_def
      BBVA_def Plata_Card_def Fovissste_def Let_def)
end
